theory Spec2Isabelle
  imports Complex_Main
begin

section \<open>Scene data shared by the two viewer pages\<close>

text \<open>
  The room viewer (\<^verbatim>\<open>src/unnamed/part_002\<close>, first document) and the story garden
  (\<^verbatim>\<open>src/unnamed/part_004\<close>) are two pages with the same proximity check. Both keep
  their state in module-level variables and in Three.js objects that are shared by
  reference between the registry array, the scene graph and the highlight variable.
  The embedding makes that sharing explicit: an object reference is an address, and a
  heap maps every address to the object stored there.

  JavaScript numbers are idealised as real numbers: rounding, NaN and overflow of the
  IEEE doubles are outside the model.
\<close>

type_synonym ref = nat

text \<open>A \<^verbatim>\<open>THREE.Vector3\<close>; the fields are the source's \<^verbatim>\<open>x\<close>, \<^verbatim>\<open>y\<close>, \<^verbatim>\<open>z\<close>.\<close>

record vec3 =
  vx :: real
  vy :: real
  vz :: real

text \<open>
  Modelled from the spec: \<^verbatim>\<open>Vector3.distanceTo\<close> (and \<^verbatim>\<open>distanceToSquared\<close>, which it
  calls) belong to Three.js, which is not part of the repository. The specification
  calls the distance Euclidean, which is what the library computes: the square root of
  the sum of the squared coordinate differences.
\<close>

definition distanceToSquared :: "vec3 \<Rightarrow> vec3 \<Rightarrow> real" where
  "distanceToSquared a b =
     (let dx = vx a - vx b; dy = vy a - vy b; dz = vz a - vz b
      in dx * dx + dy * dy + dz * dz)"

definition distanceTo :: "vec3 \<Rightarrow> vec3 \<Rightarrow> real" where
  "distanceTo a b = sqrt (distanceToSquared a b)"

text \<open>
  A Three.js material. Only the two properties the highlight writes are named; every
  other property (colour, maps, shininess) is carried along in \<open>other_props\<close>.
  Materials are compared by value, so a \<^verbatim>\<open>clone()\<close> is the material itself.
\<close>

record mat =
  other_props :: nat
  emissive :: nat
  emissiveIntensity :: real

text \<open>The \<^verbatim>\<open>material\<close> property of a mesh: one material or an array of them.\<close>

datatype material = Single mat | Multi "mat list"

definition highlightMat :: "mat \<Rightarrow> mat" where
  "highlightMat m = m\<lparr>emissive := 0x666666, emissiveIntensity := 0.5\<rparr>"

fun createHighlightMaterial :: "material \<Rightarrow> material" where
  "createHighlightMaterial (Multi originalMaterial) = Multi (map highlightMat originalMaterial)"
| "createHighlightMaterial (Single originalMaterial) = Single (highlightMat originalMaterial)"

definition INTERACTION_DISTANCE :: real where
  "INTERACTION_DISTANCE = 2"

definition cameraHeight :: real where
  "cameraHeight = 0.8"

text \<open>
  The value of \<^verbatim>\<open>closestDistance\<close>: it starts as \<^verbatim>\<open>Infinity\<close> and later holds a distance.
\<close>

datatype jsnum = Infinity | Num real

fun less_jsnum :: "real \<Rightarrow> jsnum \<Rightarrow> bool" where
  "less_jsnum d Infinity = True"
| "less_jsnum d (Num c) = (d < c)"

text \<open>
  The \<^verbatim>\<open>forEach\<close> loop of both proximity checks, over the array it walks and the pair of
  local variables \<^verbatim>\<open>(closestObject, closestDistance)\<close> it updates. \<open>distOf\<close> is the
  distance from the camera to an object.
\<close>

fun closest_forEach :: "(ref \<Rightarrow> real) \<Rightarrow> ref list \<Rightarrow> ref option \<times> jsnum \<Rightarrow> ref option \<times> jsnum" where
  "closest_forEach distOf [] (closestObject, closestDistance) = (closestObject, closestDistance)"
| "closest_forEach distOf (obj # rest) (closestObject, closestDistance) =
     (let distance = distOf obj in
      if distance < INTERACTION_DISTANCE \<and> less_jsnum distance closestDistance
      then closest_forEach distOf rest (Some obj, Num distance)
      else closest_forEach distOf rest (closestObject, closestDistance))"

text \<open>
  The statements of a proximity check that touch materials, the overlay or the stored
  highlight, and the loader's error report. Each operation returns the list of those it
  executed, in order.
\<close>

datatype effect =
    RestoreMaterials ref
  | OverlayHide
  | HighlightMaterials ref
  | DescriptionText string
  | OverlayShow
  | StoreHighlighted "ref option"
  | ConsoleError

text \<open>
  Modelled from the spec: the setter of \<^verbatim>\<open>textContent\<close> belongs to the browser's DOM,
  which is not part of the repository. The specification has a missing description
  degrade to an empty overlay; this is what the DOM does, where the attribute is a
  nullable string and \<^verbatim>\<open>undefined\<close> (here \<open>None\<close>) is stored as the empty string without
  raising.
\<close>

fun textContent :: "string option \<Rightarrow> string" where
  "textContent None = []"
| "textContent (Some t) = t"

text \<open>The globals both pages have: the camera, the overlay element and its text.\<close>

record page =
  camera_position :: vec3
  overlay_hidden :: bool
  description :: string

text \<open>
  \<^verbatim>\<open>updateCamera\<close> turns and moves the camera from the key state and the view direction,
  then puts it back at the fixed height. The position \<open>v\<close> that the turning and moving
  arrive at is taken as given.
\<close>

definition updateCamera :: "vec3 \<Rightarrow> 'a page_scheme \<Rightarrow> 'a page_scheme" where
  "updateCamera v s = s\<lparr>camera_position := v\<lparr>vy := cameraHeight\<rparr>\<rparr>"

section \<open>The room viewer\<close>

text \<open>
  A mesh below a loaded model: its current \<^verbatim>\<open>material\<close> and the
  \<^verbatim>\<open>userData.originalMaterial\<close> saved when the model was loaded.
\<close>

record mesh =
  material :: material
  originalMaterial :: material

text \<open>
  A loaded model: its position, \<^verbatim>\<open>userData.type\<close>, \<^verbatim>\<open>userData.originalMaterials\<close>
  (pairs of a mesh, given by its place in \<open>meshes\<close>, and a material) and the meshes
  that \<^verbatim>\<open>traverse\<close> visits, in that order.
\<close>

record object3d =
  position :: vec3
  userData_type :: string
  originalMaterials :: "(nat \<times> material) list"
  meshes :: "mesh list"

text \<open>
  The module-level variables of the page and the Three.js objects behind them. \<open>heap\<close>
  holds the loaded models by address; an address not yet handed out holds a blank model
  without meshes, and \<open>next_ref\<close> is the next address to hand out. \<open>objects\<close> is the
  registry array and \<open>highlightedObject\<close> the stored highlight, \<open>None\<close> for \<^verbatim>\<open>null\<close>.
  \<open>scene\<close> is the set of models that are children of the Three.js scene (lights and
  helpers are left out): \<^verbatim>\<open>scene.add\<close> inserts and \<^verbatim>\<open>scene.remove\<close> deletes.
\<close>

record viewer = page +
  heap :: "ref \<Rightarrow> object3d"
  next_ref :: ref
  objects :: "ref list"
  scene :: "ref set"
  highlightedObject :: "ref option"

text \<open>
  The table of descriptions; a lookup of a key it does not have is \<^verbatim>\<open>undefined\<close>, here
  \<open>None\<close>. (The source looks keys up in a plain object, which also answers to the names
  of \<^verbatim>\<open>Object.prototype\<close>; the page looks up type tags of the allow-list only, none of
  which is such a name.) The two right single quotation marks of the fourth text are
  written as their three UTF-8 bytes.
\<close>

definition objectDescriptions :: "string \<Rightarrow> string option" where
  "objectDescriptions = map_of
    [(''gift_box_with_a_ribbons'', ''he was very friendly at first and he seemed very low-key and non-threatening so we met at the gym we started hanging out um a little bit but he just would not give up so he was texting me all the time pursuing me all the time always asking me to hang out he he very quickly jumped right into the i love you the i want to be with you forever you're you're perfect for me true love bombing straight from the beginning and he encouraged um you know moving in together and made these really grand promises''),
     (''mirror'', ''I mean, there would have been no way for me to get out if I would have said I'm leaving. Not too long before this had happened, we were in a car accident. And I was like, we were away for a weekend. And he said to me, you know, if you ever leave me, they're going to find you at the bottom of a lake somewhere. And he just said it really subtly, like casually in a conversation''),
     (''modern_side_lamp_and_stand'', ''Shaun started making remarks about my little sister who was twelve at the time. We'd been out for my sister's birthday and I posted a photo of us online; minutes later Shaun was tweeting about how shocking it was one sister could look much more sexy than another, how surprising it was that one person could go from pretty to hideous whilst their younger sister remained gorgeou''),
     (''radio_broadcaster'', ''I said once I wanted to go to university in the future, he suddenly went really off and wouldn'' @ [CHR 0xE2, CHR 0x80, CHR 0x99] @ ''t talk to me for days. Then he said he was furious I'' @ [CHR 0xE2, CHR 0x80, CHR 0x99] @ ''d want to waste my time at university instead of spending it with him! Try and take a step back and think about what you'd think if someone else was in your relationship would you be worried for them?''),
     (''telephone'', ''He triangulated us a lot. So he would say, oh, mom's stupid or oh, mom is this or oh, mom's that. And then I remember one time with our, so my daughter's older and I remember one time my daughter was maybe two and they were sitting playing a game on the floor and I walked into the room and he said, tell mommy to go away. And she's like, mommy, go away'')]"

text \<open>The array literal that \<^verbatim>\<open>checkObjectProximity\<close> filters the registry with.\<close>

definition interactive_types :: "string list" where
  "interactive_types =
     [''gift_box_with_a_ribbons'', ''mirror'', ''modern_side_lamp_and_stand'',
      ''radio_broadcaster'', ''telephone'', ''coffee_table'']"

text \<open>
  The state \<^verbatim>\<open>initScene\<close> leaves: an empty registry, no highlight, the camera at its
  start position. Whether the overlay of the HTML page starts hidden, and with which
  text, is not in the repository and is a parameter. The loads that \<^verbatim>\<open>initScene\<close>
  starts through \<^verbatim>\<open>loadLocalModels\<close> complete later, one callback at a time.
\<close>

definition initScene :: "bool \<Rightarrow> string \<Rightarrow> viewer" where
  "initScene hidden text =
     \<lparr>camera_position = \<lparr>vx = 0, vy = cameraHeight, vz = 5\<rparr>,
      overlay_hidden = hidden,
      description = text,
      heap = (\<lambda>_. \<lparr>position = \<lparr>vx = 0, vy = 0, vz = 0\<rparr>, userData_type = [],
                    originalMaterials = [], meshes = []\<rparr>),
      next_ref = 0,
      objects = [],
      scene = {},
      highlightedObject = None\<rparr>"

text \<open>
  What \<^verbatim>\<open>GLTFLoader.load\<close> hands to one of the two callbacks of \<^verbatim>\<open>loadObject\<close>: a loaded
  model or an error. Of a loaded model the state keeps the materials of its meshes and
  its position, whose height uses the lowest \<^verbatim>\<open>y\<close> of the bounding box that Three.js
  computes after the rescaling; that value is taken as given.
\<close>

record gltf =
  gltf_materials :: "material list"
  gltf_minY :: real

datatype load_result = Loaded gltf | LoadError

text \<open>
  \<^verbatim>\<open>loadObject\<close> at the moment the loader calls back. The success callback places the
  model, tags it with the folder name, saves the material of every mesh twice (in the
  mesh and in the list of the model), and adds the model to the scene and, last, to the
  registry. The scale and the rotation it also sets are read by the renderer only and
  are not part of the state, so \<open>rotation_y\<close> and \<open>objectType\<close> go unused. The error
  callback writes to the console.
\<close>

definition loadObject :: "string \<Rightarrow> vec3 \<Rightarrow> real \<Rightarrow> string \<Rightarrow> load_result \<Rightarrow> viewer \<Rightarrow> viewer \<times> effect list" where
  "loadObject folderName pos rotation_y objectType result s =
     (case result of
        Loaded g \<Rightarrow>
          (let model = next_ref s;
               obj = \<lparr>position = \<lparr>vx = vx pos, vy = vy pos - gltf_minY g, vz = vz pos\<rparr>,
                      userData_type = folderName,
                      originalMaterials = zip [0..<length (gltf_materials g)] (gltf_materials g),
                      meshes = map (\<lambda>m. \<lparr>material = m, originalMaterial = m\<rparr>) (gltf_materials g)\<rparr>
           in (s\<lparr>heap := (heap s)(model := obj),
                 next_ref := Suc model,
                 scene := insert model (scene s),
                 objects := objects s @ [model]\<rparr>, []))
      | LoadError \<Rightarrow> (s, [ConsoleError]))"

definition interactiveObjects :: "viewer \<Rightarrow> ref list" where
  "interactiveObjects s =
     filter (\<lambda>obj. userData_type (heap s obj) \<in> set interactive_types) (objects s)"

text \<open>The expression \<^verbatim>\<open>camera.position.distanceTo(obj.position)\<close>.\<close>

definition objectDistance :: "viewer \<Rightarrow> ref \<Rightarrow> real" where
  "objectDistance s obj = distanceTo (camera_position s) (position (heap s obj))"

definition closestObject :: "viewer \<Rightarrow> ref option" where
  "closestObject s =
     fst (closest_forEach (objectDistance s) (interactiveObjects s) (None, Infinity))"

text \<open>
  The two loops over the meshes of a model: the \<^verbatim>\<open>forEach\<close> over
  \<^verbatim>\<open>userData.originalMaterials\<close> that puts the saved materials back, and the \<^verbatim>\<open>traverse\<close>
  that gives every mesh the highlight version of the material saved in it. (A pair of
  \<open>originalMaterials\<close> names its mesh by position; the source holds the mesh itself, so
  a position outside \<open>meshes\<close>, where the update below does nothing, does not arise.)
\<close>

definition restoreMaterials :: "object3d \<Rightarrow> object3d" where
  "restoreMaterials obj =
     obj\<lparr>meshes := fold (\<lambda>(i, m) ms. ms[i := (ms ! i)\<lparr>material := m\<rparr>])
                        (originalMaterials obj) (meshes obj)\<rparr>"

definition highlightMaterials :: "object3d \<Rightarrow> object3d" where
  "highlightMaterials obj =
     obj\<lparr>meshes := map (\<lambda>child. child\<lparr>material := createHighlightMaterial (originalMaterial child)\<rparr>)
                       (meshes obj)\<rparr>"

text \<open>
  The two conditional blocks inside \<^verbatim>\<open>checkObjectProximity\<close>, commented there as
  ``Remove highlight from previous object'' and ``Add highlight to new object''.
\<close>

definition removeHighlight :: "viewer \<Rightarrow> viewer \<times> effect list" where
  "removeHighlight s =
     (case highlightedObject s of
        Some h \<Rightarrow> (s\<lparr>overlay_hidden := True, heap := (heap s)(h := restoreMaterials (heap s h))\<rparr>,
                   [RestoreMaterials h, OverlayHide])
      | None \<Rightarrow> (s, []))"

definition addHighlight :: "ref option \<Rightarrow> viewer \<Rightarrow> viewer \<times> effect list" where
  "addHighlight closest s =
     (case closest of
        Some c \<Rightarrow>
          (let text = textContent (objectDescriptions (userData_type (heap s c)))
           in (s\<lparr>overlay_hidden := False, description := text,
                 heap := (heap s)(c := highlightMaterials (heap s c))\<rparr>,
               [HighlightMaterials c, DescriptionText text, OverlayShow]))
      | None \<Rightarrow> (s, []))"

definition checkObjectProximity :: "viewer \<Rightarrow> viewer \<times> effect list" where
  "checkObjectProximity s =
     (let closest = closestObject s in
      if closest \<noteq> highlightedObject s then
        (let (s1, left) = removeHighlight s;
             (s2, entered) = addHighlight closest s1
         in (s2\<lparr>highlightedObject := closest\<rparr>, left @ entered @ [StoreHighlighted closest]))
      else (s, []))"

text \<open>
  \<^verbatim>\<open>clearScene\<close> removes every registered object from the scene and assigns a new empty
  array to \<^verbatim>\<open>objects\<close>. It has no other statement.
\<close>

definition clearScene :: "viewer \<Rightarrow> viewer" where
  "clearScene s = s\<lparr>scene := fold (\<lambda>obj sc. sc - {obj}) (objects s) (scene s), objects := []\<rparr>"

text \<open>
  One frame of \<^verbatim>\<open>animate\<close>: the camera is moved, then the proximity check runs.
  Rendering reads the state and changes nothing in it.
\<close>

definition animate :: "vec3 \<Rightarrow> viewer \<Rightarrow> viewer \<times> effect list" where
  "animate v s = checkObjectProximity (updateCamera v s)"

text \<open>
  A run of frames: \<^verbatim>\<open>animate\<close> schedules itself again through
  \<^verbatim>\<open>requestAnimationFrame\<close>, so frames follow one another; \<open>vs\<close> lists the positions
  the camera is moved to, frame by frame. The state before frame \<open>n\<close> of a run from
  \<open>s\<close> is \<open>frames (take n vs) s\<close>.
\<close>

fun frames :: "vec3 list \<Rightarrow> viewer \<Rightarrow> viewer" where
  "frames [] s = s"
| "frames (v # vs) s = frames vs (fst (animate v s))"

text \<open>
  The states the page can be in: it starts with \<^verbatim>\<open>initScene\<close>; then loader callbacks,
  camera moves, proximity checks and \<^verbatim>\<open>clearScene\<close> run one at a time, in any order.
\<close>

inductive viewer_reachable :: "viewer \<Rightarrow> bool" where
  reach_initScene: "viewer_reachable (initScene hidden text)"
| reach_loadObject: "viewer_reachable s \<Longrightarrow>
     viewer_reachable (fst (loadObject folderName pos rotation_y objectType result s))"
| reach_updateCamera: "viewer_reachable s \<Longrightarrow> viewer_reachable (updateCamera v s)"
| reach_checkObjectProximity: "viewer_reachable s \<Longrightarrow> viewer_reachable (fst (checkObjectProximity s))"
| reach_clearScene: "viewer_reachable s \<Longrightarrow> viewer_reachable (clearScene s)"

text \<open>
  An object looks highlighted when one of its meshes carries a material other than the
  one saved for it at load time.
\<close>

definition highlighted_look :: "object3d \<Rightarrow> bool" where
  "highlighted_look obj = (\<exists>m\<in>set (meshes obj). material m \<noteq> originalMaterial m)"

text \<open>
  What \<^verbatim>\<open>loadObject\<close> establishes for a model: \<^verbatim>\<open>userData.originalMaterials\<close> lists every
  mesh once, in order, with the material saved in the mesh's own \<^verbatim>\<open>userData\<close>.
\<close>

definition saved_ok :: "object3d \<Rightarrow> bool" where
  "saved_ok obj =
     (originalMaterials obj = zip [0..<length (meshes obj)] (map originalMaterial (meshes obj)))"

definition viewer_inv :: "viewer \<Rightarrow> bool" where
  "viewer_inv s =
     ((\<forall>r. saved_ok (heap s r)) \<and> (\<forall>r. highlighted_look (heap s r) \<longrightarrow> highlightedObject s = Some r))"

text \<open>
  Example rooms: \<open>place folderName z\<close> is a successful load of a one-mesh model at
  camera height on the axis the camera starts on.
\<close>

definition plain :: material where
  "plain = Single \<lparr>other_props = 0, emissive = 0, emissiveIntensity = 1\<rparr>"

definition place :: "string \<Rightarrow> real \<Rightarrow> viewer \<Rightarrow> viewer" where
  "place folderName z s =
     fst (loadObject folderName \<lparr>vx = 0, vy = cameraHeight, vz = z\<rparr> 0 []
            (Loaded \<lparr>gltf_materials = [plain], gltf_minY = 0\<rparr>) s)"

definition at_z :: "real \<Rightarrow> vec3" where
  "at_z z = \<lparr>vx = 0, vy = cameraHeight, vz = z\<rparr>"

section \<open>The story garden\<close>

text \<open>An entry of \<^verbatim>\<open>stories.json\<close>; a missing \<^verbatim>\<open>content\<close> is \<open>None\<close>.\<close>

record story =
  TSNE1 :: real
  TSNE2 :: real
  story_content :: "string option"

text \<open>
  A sphere is a single \<^verbatim>\<open>THREE.Mesh\<close>: its position, its current material and its
  \<^verbatim>\<open>userData\<close> (\<^verbatim>\<open>content\<close>, \<^verbatim>\<open>index\<close>, \<^verbatim>\<open>originalMaterial\<close>, \<^verbatim>\<open>type\<close>).
\<close>

record sphere =
  sphere_position :: vec3
  sphere_material :: mat
  userData_content :: "string option"
  userData_index :: nat
  userData_originalMaterial :: mat
  sphere_type :: string

record garden = page +
  sphere_heap :: "ref \<Rightarrow> sphere"
  sphere_next :: ref
  spheres :: "ref list"
  garden_scene :: "ref set"
  highlightedSphere :: "ref option"

text \<open>The state in which \<^verbatim>\<open>init\<close> calls \<^verbatim>\<open>createSpheres\<close>.\<close>

definition init :: "bool \<Rightarrow> string \<Rightarrow> garden" where
  "init hidden text =
     \<lparr>camera_position = \<lparr>vx = 0, vy = cameraHeight, vz = 5\<rparr>,
      overlay_hidden = hidden,
      description = text,
      sphere_heap = (\<lambda>_. \<lparr>sphere_position = \<lparr>vx = 0, vy = 0, vz = 0\<rparr>,
                           sphere_material = \<lparr>other_props = 0, emissive = 0, emissiveIntensity = 0\<rparr>,
                           userData_content = None, userData_index = 0,
                           userData_originalMaterial = \<lparr>other_props = 0, emissive = 0, emissiveIntensity = 0\<rparr>,
                           sphere_type = []\<rparr>),
      sphere_next = 0,
      spheres = [],
      garden_scene = {},
      highlightedSphere = None\<rparr>"

text \<open>
  The material all spheres are cloned from: a Phong material with the flower texture,
  no emissive colour and emissive intensity 0. \<^verbatim>\<open>createSpheres\<close> makes one sphere per
  story, in order, at a new address each.
\<close>

definition sphereMaterial :: "nat \<Rightarrow> mat" where
  "sphereMaterial flowerTexture = \<lparr>other_props = flowerTexture, emissive = 0, emissiveIntensity = 0\<rparr>"

fun createSpheres_forEach :: "nat \<Rightarrow> story list \<Rightarrow> nat \<Rightarrow> garden \<Rightarrow> garden" where
  "createSpheres_forEach flowerTexture [] index g = g"
| "createSpheres_forEach flowerTexture (story # rest) index g =
     (let sphere = sphere_next g;
          obj = \<lparr>sphere_position = \<lparr>vx = TSNE1 story * 2, vy = 0.2, vz = TSNE2 story * 2\<rparr>,
                 sphere_material = sphereMaterial flowerTexture,
                 userData_content = story_content story,
                 userData_index = index,
                 userData_originalMaterial = sphereMaterial flowerTexture,
                 sphere_type = ''story_sphere''\<rparr>
      in createSpheres_forEach flowerTexture rest (Suc index)
           (g\<lparr>sphere_heap := (sphere_heap g)(sphere := obj),
              sphere_next := Suc sphere,
              spheres := spheres g @ [sphere],
              garden_scene := insert sphere (garden_scene g)\<rparr>))"

definition createSpheres :: "story list \<Rightarrow> nat \<Rightarrow> garden \<Rightarrow> garden" where
  "createSpheres stories flowerTexture g = createSpheres_forEach flowerTexture stories 0 g"

definition sphereDistance :: "garden \<Rightarrow> ref \<Rightarrow> real" where
  "sphereDistance g sphere = distanceTo (camera_position g) (sphere_position (sphere_heap g sphere))"

definition closestSphere :: "garden \<Rightarrow> ref option" where
  "closestSphere g = fst (closest_forEach (sphereDistance g) (spheres g) (None, Infinity))"

text \<open>
  The two conditional blocks inside \<^verbatim>\<open>checkProximity\<close>, ``Remove highlight from previous
  sphere'' and ``Add highlight to new sphere''.
\<close>

definition removeSphereHighlight :: "garden \<Rightarrow> garden \<times> effect list" where
  "removeSphereHighlight g =
     (case highlightedSphere g of
        Some h \<Rightarrow>
          (g\<lparr>overlay_hidden := True,
             sphere_heap := (sphere_heap g)
               (h := (sphere_heap g h)\<lparr>sphere_material := userData_originalMaterial (sphere_heap g h)\<rparr>)\<rparr>,
           [RestoreMaterials h, OverlayHide])
      | None \<Rightarrow> (g, []))"

definition addSphereHighlight :: "ref option \<Rightarrow> garden \<Rightarrow> garden \<times> effect list" where
  "addSphereHighlight closest g =
     (case closest of
        Some c \<Rightarrow>
          (let highlightMaterial = highlightMat (userData_originalMaterial (sphere_heap g c));
               text = textContent (userData_content (sphere_heap g c))
           in (g\<lparr>overlay_hidden := False, description := text,
                 sphere_heap := (sphere_heap g)(c := (sphere_heap g c)\<lparr>sphere_material := highlightMaterial\<rparr>)\<rparr>,
               [HighlightMaterials c, DescriptionText text, OverlayShow]))
      | None \<Rightarrow> (g, []))"

definition checkProximity :: "garden \<Rightarrow> garden \<times> effect list" where
  "checkProximity g =
     (let closest = closestSphere g in
      if closest \<noteq> highlightedSphere g then
        (let (g1, left) = removeSphereHighlight g;
             (g2, entered) = addSphereHighlight closest g1
         in (g2\<lparr>highlightedSphere := closest\<rparr>, left @ entered @ [StoreHighlighted closest]))
      else (g, []))"

text \<open>One frame of the garden's \<^verbatim>\<open>animate\<close>, and the states the garden can be in.\<close>

definition garden_animate :: "vec3 \<Rightarrow> garden \<Rightarrow> garden \<times> effect list" where
  "garden_animate v g = checkProximity (updateCamera v g)"

fun garden_frames :: "vec3 list \<Rightarrow> garden \<Rightarrow> garden" where
  "garden_frames [] g = g"
| "garden_frames (v # vs) g = garden_frames vs (fst (garden_animate v g))"

inductive garden_reachable :: "garden \<Rightarrow> bool" where
  reach_init: "garden_reachable (init hidden text)"
| reach_createSpheres: "garden_reachable g \<Longrightarrow> garden_reachable (createSpheres stories flowerTexture g)"
| reach_garden_camera: "garden_reachable g \<Longrightarrow> garden_reachable (updateCamera v g)"
| reach_checkProximity: "garden_reachable g \<Longrightarrow> garden_reachable (fst (checkProximity g))"

text \<open>A sphere looks highlighted when its material is not the one saved for it.\<close>

definition sphere_highlighted_look :: "sphere \<Rightarrow> bool" where
  "sphere_highlighted_look sp = (sphere_material sp \<noteq> userData_originalMaterial sp)"

definition garden_inv :: "garden \<Rightarrow> bool" where
  "garden_inv g = (\<forall>r. sphere_highlighted_look (sphere_heap g r) \<longrightarrow> highlightedSphere g = Some r)"

text \<open>An example garden: one story per given pair of coordinates.\<close>

definition plant :: "(real \<times> real) list \<Rightarrow> garden" where
  "plant ps =
     createSpheres (map (\<lambda>(a, b). \<lparr>TSNE1 = a, TSNE2 = b, story_content = Some ''story''\<rparr>) ps) 0
       (init True [])"

section \<open>The accumulator of the scan\<close>

text \<open>
  Between two iterations the two local variables agree: either nothing has been found,
  or \<^verbatim>\<open>closestDistance\<close> is the distance of \<^verbatim>\<open>closestObject\<close>, which is in range.
\<close>

fun acc_ok :: "(ref \<Rightarrow> real) \<Rightarrow> ref option \<times> jsnum \<Rightarrow> bool" where
  "acc_ok d (None, cd) = (cd = Infinity)"
| "acc_ok d (Some a, cd) = (cd = Num (d a) \<and> d a < INTERACTION_DISTANCE)"

section \<open>Properties of the scan\<close>

lemma closest_forEach_append:
  "closest_forEach d (xs @ ys) acc = closest_forEach d ys (closest_forEach d xs acc)"
proof (induction xs arbitrary: acc)
  case Nil
  show ?case by (cases acc) simp
next
  case (Cons x xs)
  show ?case by (cases acc) (simp add: Cons.IH Let_def)
qed

lemma closest_forEach_keeps_Some:
  "co \<noteq> None \<Longrightarrow> fst (closest_forEach d xs (co, cd)) \<noteq> None"
  by (induction xs arbitrary: co cd) (simp_all add: Let_def)

lemma closest_forEach_None_iff:
  "fst (closest_forEach d xs (None, Infinity)) = None \<longleftrightarrow>
     (\<forall>x\<in>set xs. \<not> d x < INTERACTION_DISTANCE)"
proof (induction xs)
  case Nil
  show ?case by simp
next
  case (Cons x xs)
  show ?case
  proof (cases "d x < INTERACTION_DISTANCE")
    case True
    then show ?thesis by (simp add: closest_forEach_keeps_Some)
  next
    case False
    then show ?thesis using Cons.IH by simp
  qed
qed

lemma closest_forEach_min:
  "acc_ok d (co, cd) \<Longrightarrow> closest_forEach d xs (co, cd) = (Some r, cd') \<Longrightarrow>
     cd' = Num (d r) \<and> d r < INTERACTION_DISTANCE \<and> (r \<in> set xs \<or> co = Some r) \<and>
     (\<forall>x\<in>set xs. d x < INTERACTION_DISTANCE \<longrightarrow> d r \<le> d x) \<and>
     (\<forall>a. co = Some a \<longrightarrow> d r \<le> d a)"
proof (induction xs arbitrary: co cd)
  case Nil
  then show ?case by auto
next
  case (Cons x xs)
  show ?case
  proof (cases "d x < INTERACTION_DISTANCE \<and> less_jsnum (d x) cd")
    case True
    then have run: "closest_forEach d xs (Some x, Num (d x)) = (Some r, cd')"
      using Cons.prems(2) by simp
    have ok: "acc_ok d (Some x, Num (d x))" using True by simp
    from Cons.IH[OF ok run] True Cons.prems(1) show ?thesis
      by (cases co) auto
  next
    case False
    then have run: "closest_forEach d xs (co, cd) = (Some r, cd')"
      using Cons.prems(2) by auto
    from Cons.IH[OF Cons.prems(1) run] False Cons.prems(1) show ?thesis
      by (cases co) auto
  qed
qed

lemma closest_forEach_Some:
  assumes "fst (closest_forEach d xs (None, Infinity)) = Some r"
  shows "r \<in> set xs \<and> d r < INTERACTION_DISTANCE \<and> (\<forall>x\<in>set xs. d r \<le> d x)"
proof -
  obtain cd' where run: "closest_forEach d xs (None, Infinity) = (Some r, cd')"
    using assms by (cases "closest_forEach d xs (None, Infinity)") simp
  have ok: "acc_ok d (None, Infinity)" by simp
  from closest_forEach_min[OF ok run]
  have "r \<in> set xs" and near: "d r < INTERACTION_DISTANCE"
    and least: "\<forall>x\<in>set xs. d x < INTERACTION_DISTANCE \<longrightarrow> d r \<le> d x"
    by simp_all
  have "d r \<le> d x" if "x \<in> set xs" for x
  proof (cases "d x < INTERACTION_DISTANCE")
    case True
    with least that show ?thesis by simp
  next
    case False
    with near show ?thesis by simp
  qed
  with \<open>r \<in> set xs\<close> near show ?thesis by simp
qed

lemma closest_forEach_stays:
  "d a < INTERACTION_DISTANCE \<Longrightarrow> \<forall>y\<in>set post. d a \<le> d y \<Longrightarrow>
     closest_forEach d post (Some a, Num (d a)) = (Some a, Num (d a))"
  by (induction post) auto

lemma closest_forEach_takes:
  "d a < INTERACTION_DISTANCE \<Longrightarrow> \<forall>y\<in>set pre. d a < d y \<Longrightarrow>
   cd = Infinity \<or> (\<exists>c. cd = Num c \<and> d a < c) \<Longrightarrow>
     closest_forEach d (pre @ [a]) (co, cd) = (Some a, Num (d a))"
proof (induction pre arbitrary: co cd)
  case Nil
  then show ?case by auto
next
  case (Cons y pre)
  then show ?case by (auto simp: Let_def)
qed

lemma closest_forEach_first_min:
  assumes "d a < INTERACTION_DISTANCE" "\<forall>y\<in>set pre. d a < d y" "\<forall>y\<in>set post. d a \<le> d y"
  shows "closest_forEach d (pre @ a # post) (None, Infinity) = (Some a, Num (d a))"
proof -
  have "closest_forEach d (pre @ a # post) (None, Infinity)
      = closest_forEach d post (closest_forEach d (pre @ [a]) (None, Infinity))"
    using closest_forEach_append[of d "pre @ [a]" post] by simp
  also have "\<dots> = closest_forEach d post (Some a, Num (d a))"
    using closest_forEach_takes[OF assms(1,2), of Infinity None] by simp
  also have "\<dots> = (Some a, Num (d a))"
    using closest_forEach_stays[OF assms(1,3)] .
  finally show ?thesis .
qed

section \<open>Distances in the examples\<close>

lemma distanceTo_less_INTERACTION_DISTANCE:
  "distanceTo a b < INTERACTION_DISTANCE \<longleftrightarrow> distanceToSquared a b < 4"
proof -
  have "sqrt (distanceToSquared a b) < sqrt 4 \<longleftrightarrow> distanceToSquared a b < 4"
    by (rule real_sqrt_less_iff)
  then show ?thesis by (simp add: distanceTo_def INTERACTION_DISTANCE_def)
qed

lemma distanceTo_less_iff:
  "distanceTo a b < distanceTo a' b' \<longleftrightarrow> distanceToSquared a b < distanceToSquared a' b'"
  by (simp add: distanceTo_def)

lemma distanceTo_le_iff:
  "distanceTo a b \<le> distanceTo a' b' \<longleftrightarrow> distanceToSquared a b \<le> distanceToSquared a' b'"
  by (simp add: distanceTo_def)

lemmas distance_eval =
  distanceTo_less_INTERACTION_DISTANCE distanceTo_less_iff distanceTo_le_iff
  distanceToSquared_def Let_def

section \<open>Materials\<close>

lemma restore_fold_gen:
  "fold (\<lambda>(i, m) ms. ms[i := (ms ! i)\<lparr>material := m\<rparr>])
        (zip [length pre..<length pre + length rest] (map originalMaterial rest)) (pre @ rest)
   = pre @ map (\<lambda>m. m\<lparr>material := originalMaterial m\<rparr>) rest"
proof (induction rest arbitrary: pre)
  case Nil
  show ?case by simp
next
  case (Cons m rest)
  have "[length pre..<length pre + length (m # rest)]
        = length pre # [Suc (length pre)..<Suc (length pre) + length rest]"
    by (simp add: upt_conv_Cons del: upt_Suc)
  then show ?case
    using Cons.IH[of "pre @ [m\<lparr>material := originalMaterial m\<rparr>]"] by simp
qed

lemma restore_fold:
  "fold (\<lambda>(i, m) ms. ms[i := (ms ! i)\<lparr>material := m\<rparr>])
        (zip [0..<length ms] (map originalMaterial ms)) ms
   = map (\<lambda>m. m\<lparr>material := originalMaterial m\<rparr>) ms"
  using restore_fold_gen[of "[]" ms] by simp

lemma restoreMaterials_saved:
  "saved_ok obj \<Longrightarrow>
     restoreMaterials obj = obj\<lparr>meshes := map (\<lambda>m. m\<lparr>material := originalMaterial m\<rparr>) (meshes obj)\<rparr>"
  by (simp add: saved_ok_def restoreMaterials_def restore_fold)

lemma restoreMaterials_normal: "saved_ok obj \<Longrightarrow> \<not> highlighted_look (restoreMaterials obj)"
  by (simp add: restoreMaterials_saved highlighted_look_def)

lemma restoreMaterials_saved_ok: "saved_ok obj \<Longrightarrow> saved_ok (restoreMaterials obj)"
  by (simp add: restoreMaterials_saved) (simp add: saved_ok_def comp_def)

lemma highlightMaterials_saved_ok: "saved_ok obj \<Longrightarrow> saved_ok (highlightMaterials obj)"
  by (simp add: saved_ok_def highlightMaterials_def comp_def)

lemma restoreMaterials_position [simp]: "position (restoreMaterials obj) = position obj"
  and restoreMaterials_type [simp]: "userData_type (restoreMaterials obj) = userData_type obj"
  by (simp_all add: restoreMaterials_def)

lemma highlightMaterials_position [simp]: "position (highlightMaterials obj) = position obj"
  and highlightMaterials_type [simp]: "userData_type (highlightMaterials obj) = userData_type obj"
  by (simp_all add: highlightMaterials_def)

section \<open>The proximity check of the room viewer\<close>

lemma removeHighlight_frame:
  "objects (fst (removeHighlight s)) = objects s"
  "camera_position (fst (removeHighlight s)) = camera_position s"
  "next_ref (fst (removeHighlight s)) = next_ref s"
  "scene (fst (removeHighlight s)) = scene s"
  "highlightedObject (fst (removeHighlight s)) = highlightedObject s"
  "position (heap (fst (removeHighlight s)) r) = position (heap s r)"
  "userData_type (heap (fst (removeHighlight s)) r) = userData_type (heap s r)"
  by (simp_all add: removeHighlight_def split: option.splits)

lemma addHighlight_frame:
  "objects (fst (addHighlight c s)) = objects s"
  "camera_position (fst (addHighlight c s)) = camera_position s"
  "next_ref (fst (addHighlight c s)) = next_ref s"
  "scene (fst (addHighlight c s)) = scene s"
  "highlightedObject (fst (addHighlight c s)) = highlightedObject s"
  "position (heap (fst (addHighlight c s)) r) = position (heap s r)"
  "userData_type (heap (fst (addHighlight c s)) r) = userData_type (heap s r)"
  by (simp_all add: addHighlight_def Let_def split: option.splits)

lemma checkObjectProximity_highlighted:
  "highlightedObject (fst (checkObjectProximity s)) = closestObject s"
  by (simp add: checkObjectProximity_def Let_def case_prod_beta)

lemma checkObjectProximity_frame:
  "objects (fst (checkObjectProximity s)) = objects s"
  "camera_position (fst (checkObjectProximity s)) = camera_position s"
  "next_ref (fst (checkObjectProximity s)) = next_ref s"
  "scene (fst (checkObjectProximity s)) = scene s"
  "position (heap (fst (checkObjectProximity s)) r) = position (heap s r)"
  "userData_type (heap (fst (checkObjectProximity s)) r) = userData_type (heap s r)"
  by (simp_all add: checkObjectProximity_def Let_def case_prod_beta
        removeHighlight_frame addHighlight_frame)

lemma closestObject_cong:
  assumes "camera_position s' = camera_position s" "objects s' = objects s"
    and "\<And>r. position (heap s' r) = position (heap s r)"
    and "\<And>r. userData_type (heap s' r) = userData_type (heap s r)"
  shows "closestObject s' = closestObject s"
proof -
  have "objectDistance s' = objectDistance s"
    by (rule ext) (simp add: objectDistance_def assms)
  moreover have "interactiveObjects s' = interactiveObjects s"
    by (simp add: interactiveObjects_def assms)
  ultimately show ?thesis by (simp add: closestObject_def)
qed

lemma closestObject_after_check:
  "closestObject (fst (checkObjectProximity s)) = closestObject s"
  by (rule closestObject_cong) (simp_all add: checkObjectProximity_frame)

lemma checkObjectProximity_quiet:
  "closestObject s = highlightedObject s \<Longrightarrow> checkObjectProximity s = (s, [])"
  by (simp add: checkObjectProximity_def)

lemma checkObjectProximity_again:
  "checkObjectProximity (fst (checkObjectProximity s)) = (fst (checkObjectProximity s), [])"
  by (rule checkObjectProximity_quiet)
     (simp add: closestObject_after_check checkObjectProximity_highlighted)

lemma updateCamera_same:
  "camera_position s = v\<lparr>vy := cameraHeight\<rparr> \<Longrightarrow> updateCamera v s = s"
  by (simp add: updateCamera_def)

lemma viewer_inv_initScene: "viewer_inv (initScene hidden text)"
  by (simp add: viewer_inv_def initScene_def saved_ok_def highlighted_look_def)

lemma viewer_inv_loadObject: "viewer_inv s \<Longrightarrow> viewer_inv (fst (loadObject f p ry ty res s))"
  by (cases res)
     (auto simp: viewer_inv_def loadObject_def Let_def saved_ok_def highlighted_look_def comp_def)

lemma viewer_inv_updateCamera: "viewer_inv s \<Longrightarrow> viewer_inv (updateCamera v s)"
  by (simp add: viewer_inv_def updateCamera_def)

lemma viewer_inv_clearScene: "viewer_inv s \<Longrightarrow> viewer_inv (clearScene s)"
  by (simp add: viewer_inv_def clearScene_def)

lemma viewer_inv_checkObjectProximity:
  assumes "viewer_inv s"
  shows "viewer_inv (fst (checkObjectProximity s))"
proof (cases "closestObject s = highlightedObject s")
  case True
  then show ?thesis using assms by (simp add: checkObjectProximity_quiet)
next
  case False
  from assms have saved: "\<And>r. saved_ok (heap s r)"
    and normal: "\<And>r. highlighted_look (heap s r) \<Longrightarrow> highlightedObject s = Some r"
    by (simp_all add: viewer_inv_def)
  show ?thesis
    using False saved normal restoreMaterials_normal
    by (auto simp: viewer_inv_def checkObjectProximity_def Let_def case_prod_beta
          removeHighlight_def addHighlight_def
          restoreMaterials_saved_ok highlightMaterials_saved_ok
        split: option.splits)
qed

lemma viewer_reachable_inv: "viewer_reachable s \<Longrightarrow> viewer_inv s"
  by (induction rule: viewer_reachable.induct)
     (simp_all add: viewer_inv_initScene viewer_inv_loadObject viewer_inv_updateCamera
        viewer_inv_checkObjectProximity viewer_inv_clearScene)

section \<open>The proximity check of the story garden\<close>

lemma removeSphereHighlight_frame:
  "spheres (fst (removeSphereHighlight g)) = spheres g"
  "camera_position (fst (removeSphereHighlight g)) = camera_position g"
  "sphere_next (fst (removeSphereHighlight g)) = sphere_next g"
  "garden_scene (fst (removeSphereHighlight g)) = garden_scene g"
  "highlightedSphere (fst (removeSphereHighlight g)) = highlightedSphere g"
  "sphere_position (sphere_heap (fst (removeSphereHighlight g)) r) = sphere_position (sphere_heap g r)"
  "sphere_type (sphere_heap (fst (removeSphereHighlight g)) r) = sphere_type (sphere_heap g r)"
  by (simp_all add: removeSphereHighlight_def split: option.splits)

lemma addSphereHighlight_frame:
  "spheres (fst (addSphereHighlight c g)) = spheres g"
  "camera_position (fst (addSphereHighlight c g)) = camera_position g"
  "sphere_next (fst (addSphereHighlight c g)) = sphere_next g"
  "garden_scene (fst (addSphereHighlight c g)) = garden_scene g"
  "highlightedSphere (fst (addSphereHighlight c g)) = highlightedSphere g"
  "sphere_position (sphere_heap (fst (addSphereHighlight c g)) r) = sphere_position (sphere_heap g r)"
  "sphere_type (sphere_heap (fst (addSphereHighlight c g)) r) = sphere_type (sphere_heap g r)"
  by (simp_all add: addSphereHighlight_def Let_def split: option.splits)

lemma checkProximity_highlighted:
  "highlightedSphere (fst (checkProximity g)) = closestSphere g"
  by (simp add: checkProximity_def Let_def case_prod_beta)

lemma checkProximity_frame:
  "spheres (fst (checkProximity g)) = spheres g"
  "camera_position (fst (checkProximity g)) = camera_position g"
  "sphere_next (fst (checkProximity g)) = sphere_next g"
  "garden_scene (fst (checkProximity g)) = garden_scene g"
  "sphere_position (sphere_heap (fst (checkProximity g)) r) = sphere_position (sphere_heap g r)"
  "sphere_type (sphere_heap (fst (checkProximity g)) r) = sphere_type (sphere_heap g r)"
  by (simp_all add: checkProximity_def Let_def case_prod_beta
        removeSphereHighlight_frame addSphereHighlight_frame)

lemma closestSphere_cong:
  assumes "camera_position g' = camera_position g" "spheres g' = spheres g"
    and "\<And>r. sphere_position (sphere_heap g' r) = sphere_position (sphere_heap g r)"
  shows "closestSphere g' = closestSphere g"
proof -
  have "sphereDistance g' = sphereDistance g"
    by (rule ext) (simp add: sphereDistance_def assms)
  then show ?thesis by (simp add: closestSphere_def assms)
qed

lemma closestSphere_after_check:
  "closestSphere (fst (checkProximity g)) = closestSphere g"
  by (rule closestSphere_cong) (simp_all add: checkProximity_frame)

lemma checkProximity_quiet:
  "closestSphere g = highlightedSphere g \<Longrightarrow> checkProximity g = (g, [])"
  by (simp add: checkProximity_def)

lemma checkProximity_again:
  "checkProximity (fst (checkProximity g)) = (fst (checkProximity g), [])"
  by (rule checkProximity_quiet)
     (simp add: closestSphere_after_check checkProximity_highlighted)

lemma garden_inv_init: "garden_inv (init hidden text)"
  by (simp add: garden_inv_def init_def sphere_highlighted_look_def)

lemma garden_inv_createSpheres_forEach:
  "garden_inv g \<Longrightarrow> garden_inv (createSpheres_forEach tex stories i g)"
proof (induction stories arbitrary: i g)
  case Nil
  then show ?case by simp
next
  case (Cons story rest)
  have "garden_inv
          (g\<lparr>sphere_heap := (sphere_heap g)(sphere_next g :=
                \<lparr>sphere_position = \<lparr>vx = TSNE1 story * 2, vy = 0.2, vz = TSNE2 story * 2\<rparr>,
                 sphere_material = sphereMaterial tex,
                 userData_content = story_content story,
                 userData_index = i,
                 userData_originalMaterial = sphereMaterial tex,
                 sphere_type = ''story_sphere''\<rparr>),
              sphere_next := Suc (sphere_next g),
              spheres := spheres g @ [sphere_next g],
              garden_scene := insert (sphere_next g) (garden_scene g)\<rparr>)"
    using Cons.prems by (simp add: garden_inv_def sphere_highlighted_look_def)
  then show ?case by (simp add: Let_def Cons.IH)
qed

lemma garden_inv_createSpheres: "garden_inv g \<Longrightarrow> garden_inv (createSpheres stories tex g)"
  by (simp add: createSpheres_def garden_inv_createSpheres_forEach)

lemma garden_inv_updateCamera: "garden_inv g \<Longrightarrow> garden_inv (updateCamera v g)"
  by (simp add: garden_inv_def updateCamera_def)

lemma garden_inv_checkProximity:
  assumes "garden_inv g"
  shows "garden_inv (fst (checkProximity g))"
proof (cases "closestSphere g = highlightedSphere g")
  case True
  then show ?thesis using assms by (simp add: checkProximity_quiet)
next
  case False
  from assms have normal:
    "\<And>r. highlightedSphere g \<noteq> Some r \<Longrightarrow>
       sphere_material (sphere_heap g r) = userData_originalMaterial (sphere_heap g r)"
    by (auto simp: garden_inv_def sphere_highlighted_look_def)
  show ?thesis
    using False normal
    by (auto simp: garden_inv_def checkProximity_def Let_def case_prod_beta
          removeSphereHighlight_def addSphereHighlight_def sphere_highlighted_look_def
        split: option.splits)
qed

lemma garden_reachable_inv: "garden_reachable g \<Longrightarrow> garden_inv g"
  by (induction rule: garden_reachable.induct)
     (simp_all add: garden_inv_init garden_inv_createSpheres garden_inv_updateCamera
        garden_inv_checkProximity)

section \<open>Evaluating the examples\<close>

lemma distanceTo_axis:
  "vx a = vx b \<Longrightarrow> vy a = vy b \<Longrightarrow> distanceTo a b = \<bar>vz a - vz b\<bar>"
  by (simp add: distanceTo_def distanceToSquared_def Let_def)

lemmas room_eval = place_def loadObject_def initScene_def interactiveObjects_def
  interactive_types_def objectDistance_def closestObject_def cameraHeight_def plain_def at_z_def

lemmas garden_eval = plant_def createSpheres_def init_def sphereDistance_def closestSphere_def
  cameraHeight_def sphereMaterial_def at_z_def

lemma closestObject_moved_after_check:
  "closestObject (updateCamera v (fst (checkObjectProximity s))) = closestObject (updateCamera v s)"
  by (rule closestObject_cong) (simp_all add: updateCamera_def checkObjectProximity_frame)

lemma closestSphere_moved_after_check:
  "closestSphere (updateCamera v (fst (checkProximity g))) = closestSphere (updateCamera v g)"
  by (rule closestSphere_cong) (simp_all add: updateCamera_def checkProximity_frame)

section \<open>The highlighted object is the nearest one in range\<close>

text \<open>
  Claim C1. After a proximity check the stored highlight is none exactly when no
  interactive object (no sphere, in the garden) is at a Euclidean distance strictly below
  \<open>INTERACTION_DISTANCE\<close> from the camera; otherwise it is an interactive object strictly
  within that distance and at least as near as every other interactive object. An object
  at a distance equal to \<open>INTERACTION_DISTANCE\<close> is never the highlighted one.
\<close>

theorem highlighted_is_nearest_in_range:
  "((highlightedObject (fst (checkObjectProximity s)) = None) =
      (\<forall>r\<in>set (interactiveObjects s). \<not> objectDistance s r < INTERACTION_DISTANCE)) \<and>
   (\<forall>r. highlightedObject (fst (checkObjectProximity s)) = Some r \<longrightarrow>
      r \<in> set (interactiveObjects s) \<and> objectDistance s r < INTERACTION_DISTANCE \<and>
      (\<forall>r'\<in>set (interactiveObjects s). objectDistance s r \<le> objectDistance s r')) \<and>
   (\<forall>r. objectDistance s r = INTERACTION_DISTANCE \<longrightarrow>
      highlightedObject (fst (checkObjectProximity s)) \<noteq> Some r) \<and>
   ((highlightedSphere (fst (checkProximity g)) = None) =
      (\<forall>r\<in>set (spheres g). \<not> sphereDistance g r < INTERACTION_DISTANCE)) \<and>
   (\<forall>r. highlightedSphere (fst (checkProximity g)) = Some r \<longrightarrow>
      r \<in> set (spheres g) \<and> sphereDistance g r < INTERACTION_DISTANCE \<and>
      (\<forall>r'\<in>set (spheres g). sphereDistance g r \<le> sphereDistance g r')) \<and>
   (\<forall>r. sphereDistance g r = INTERACTION_DISTANCE \<longrightarrow>
      highlightedSphere (fst (checkProximity g)) \<noteq> Some r)"
proof -
  have room_none: "(highlightedObject (fst (checkObjectProximity s)) = None) =
      (\<forall>r\<in>set (interactiveObjects s). \<not> objectDistance s r < INTERACTION_DISTANCE)"
    by (simp only: checkObjectProximity_highlighted closestObject_def closest_forEach_None_iff)
  have room_some: "r \<in> set (interactiveObjects s) \<and> objectDistance s r < INTERACTION_DISTANCE \<and>
      (\<forall>r'\<in>set (interactiveObjects s). objectDistance s r \<le> objectDistance s r')"
    if "highlightedObject (fst (checkObjectProximity s)) = Some r" for r
  proof (rule closest_forEach_Some)
    from that show "fst (closest_forEach (objectDistance s) (interactiveObjects s) (None, Infinity)) = Some r"
      by (simp add: checkObjectProximity_highlighted closestObject_def)
  qed
  have room_edge: "highlightedObject (fst (checkObjectProximity s)) \<noteq> Some r"
    if "objectDistance s r = INTERACTION_DISTANCE" for r
    using that room_some[of r] by auto
  have garden_none: "(highlightedSphere (fst (checkProximity g)) = None) =
      (\<forall>r\<in>set (spheres g). \<not> sphereDistance g r < INTERACTION_DISTANCE)"
    by (simp only: checkProximity_highlighted closestSphere_def closest_forEach_None_iff)
  have garden_some: "r \<in> set (spheres g) \<and> sphereDistance g r < INTERACTION_DISTANCE \<and>
      (\<forall>r'\<in>set (spheres g). sphereDistance g r \<le> sphereDistance g r')"
    if "highlightedSphere (fst (checkProximity g)) = Some r" for r
  proof (rule closest_forEach_Some)
    from that show "fst (closest_forEach (sphereDistance g) (spheres g) (None, Infinity)) = Some r"
      by (simp add: checkProximity_highlighted closestSphere_def)
  qed
  have garden_edge: "highlightedSphere (fst (checkProximity g)) \<noteq> Some r"
    if "sphereDistance g r = INTERACTION_DISTANCE" for r
    using that garden_some[of r] by auto
  from room_none room_some room_edge garden_none garden_some garden_edge
  show ?thesis by blast
qed

text \<open>
  A room with a mirror at distance 1 and a telephone at distance exactly 2, and a garden
  with a sphere at distance 1 and one farther than 6: the mirror and the first sphere
  are highlighted, the telephone is not.
\<close>

theorem highlighted_is_nearest_in_range_witness:
  "highlightedObject (fst (checkObjectProximity
      (place ''telephone'' 3 (place ''mirror'' 4 (initScene True []))))) = Some 0 \<and>
   objectDistance (place ''telephone'' 3 (place ''mirror'' 4 (initScene True []))) 1
     = INTERACTION_DISTANCE \<and>
   highlightedObject (fst (checkObjectProximity
      (place ''telephone'' 3 (place ''mirror'' 4 (initScene True []))))) \<noteq> Some 1 \<and>
   0 \<in> set (interactiveObjects (place ''telephone'' 3 (place ''mirror'' 4 (initScene True [])))) \<and>
   objectDistance (place ''telephone'' 3 (place ''mirror'' 4 (initScene True []))) 0
     < INTERACTION_DISTANCE \<and>
   objectDistance (place ''telephone'' 3 (place ''mirror'' 4 (initScene True []))) 0
     \<le> objectDistance (place ''telephone'' 3 (place ''mirror'' 4 (initScene True []))) 1 \<and>
   highlightedSphere (fst (checkProximity (plant [(0.4, 2.5), (3, 2.5)]))) = Some 0 \<and>
   sphereDistance (plant [(0.4, 2.5), (3, 2.5)]) 0 < INTERACTION_DISTANCE \<and>
   sphereDistance (plant [(0.4, 2.5), (3, 2.5)]) 0 \<le> sphereDistance (plant [(0.4, 2.5), (3, 2.5)]) 1"
proof -
  have room: "highlightedObject (fst (checkObjectProximity
      (place ''telephone'' 3 (place ''mirror'' 4 (initScene True []))))) = Some 0"
    by (simp add: checkObjectProximity_highlighted room_eval distance_eval)
  have edge: "objectDistance (place ''telephone'' 3 (place ''mirror'' 4 (initScene True []))) 1
     = INTERACTION_DISTANCE"
    by (simp add: room_eval distanceTo_def distanceToSquared_def INTERACTION_DISTANCE_def)
  have listed: "1 \<in> set (interactiveObjects (place ''telephone'' 3 (place ''mirror'' 4 (initScene True []))))"
    by (simp add: room_eval)
  have garden: "highlightedSphere (fst (checkProximity (plant [(0.4, 2.5), (3, 2.5)]))) = Some 0"
    by (simp add: checkProximity_highlighted garden_eval distance_eval)
  have planted: "1 \<in> set (spheres (plant [(0.4, 2.5), (3, 2.5)]))"
    by (simp add: garden_eval)
  from room edge listed garden planted
    highlighted_is_nearest_in_range
      [of "place ''telephone'' 3 (place ''mirror'' 4 (initScene True []))"
          "plant [(0.4, 2.5), (3, 2.5)]"]
  show ?thesis by blast
qed

section \<open>At most one object looks highlighted\<close>

lemma viewer_inv_one:
  assumes "viewer_inv s"
  shows "(\<forall>r. highlighted_look (heap s r) \<longrightarrow> highlightedObject s = Some r) \<and>
         (\<forall>r r'. highlighted_look (heap s r) \<and> highlighted_look (heap s r') \<longrightarrow> r = r')"
proof -
  from assms have one: "\<And>r. highlighted_look (heap s r) \<Longrightarrow> highlightedObject s = Some r"
    by (simp add: viewer_inv_def)
  have "r = r'" if "highlighted_look (heap s r)" "highlighted_look (heap s r')" for r r'
    using one[OF that(1)] one[OF that(2)] by simp
  with one show ?thesis by blast
qed

lemma garden_inv_one:
  assumes "garden_inv g"
  shows "(\<forall>r. sphere_highlighted_look (sphere_heap g r) \<longrightarrow> highlightedSphere g = Some r) \<and>
         (\<forall>r r'. sphere_highlighted_look (sphere_heap g r) \<and> sphere_highlighted_look (sphere_heap g r')
            \<longrightarrow> r = r')"
proof -
  from assms have one:
    "\<And>r. sphere_highlighted_look (sphere_heap g r) \<Longrightarrow> highlightedSphere g = Some r"
    by (simp add: garden_inv_def)
  have "r = r'"
    if "sphere_highlighted_look (sphere_heap g r)" "sphere_highlighted_look (sphere_heap g r')"
    for r r'
    using one[OF that(1)] one[OF that(2)] by simp
  with one show ?thesis by blast
qed

text \<open>
  Claim C2. In every state the room viewer can reach, after a proximity check every
  object that looks highlighted is the one stored in \<^verbatim>\<open>highlightedObject\<close>, so no two
  different objects look highlighted; the same holds for the spheres of the garden and
  \<^verbatim>\<open>highlightedSphere\<close>. The stored highlight is a \<open>ref option\<close>: none, or one object.
\<close>

theorem at_most_one_highlighted:
  "(viewer_reachable s \<longrightarrow>
      (\<forall>r. highlighted_look (heap (fst (checkObjectProximity s)) r) \<longrightarrow>
           highlightedObject (fst (checkObjectProximity s)) = Some r) \<and>
      (\<forall>r r'. highlighted_look (heap (fst (checkObjectProximity s)) r) \<and>
              highlighted_look (heap (fst (checkObjectProximity s)) r') \<longrightarrow> r = r')) \<and>
   (garden_reachable g \<longrightarrow>
      (\<forall>r. sphere_highlighted_look (sphere_heap (fst (checkProximity g)) r) \<longrightarrow>
           highlightedSphere (fst (checkProximity g)) = Some r) \<and>
      (\<forall>r r'. sphere_highlighted_look (sphere_heap (fst (checkProximity g)) r) \<and>
              sphere_highlighted_look (sphere_heap (fst (checkProximity g)) r') \<longrightarrow> r = r'))"
proof (intro conjI impI)
  assume "viewer_reachable s"
  then have inv: "viewer_inv (fst (checkObjectProximity s))"
    by (simp add: viewer_reachable_inv viewer_inv_checkObjectProximity)
  from viewer_inv_one[OF inv]
  show "\<forall>r. highlighted_look (heap (fst (checkObjectProximity s)) r) \<longrightarrow>
           highlightedObject (fst (checkObjectProximity s)) = Some r"
    and "\<forall>r r'. highlighted_look (heap (fst (checkObjectProximity s)) r) \<and>
              highlighted_look (heap (fst (checkObjectProximity s)) r') \<longrightarrow> r = r'"
    by simp_all
next
  assume "garden_reachable g"
  then have inv: "garden_inv (fst (checkProximity g))"
    by (simp add: garden_reachable_inv garden_inv_checkProximity)
  from garden_inv_one[OF inv]
  show "\<forall>r. sphere_highlighted_look (sphere_heap (fst (checkProximity g)) r) \<longrightarrow>
           highlightedSphere (fst (checkProximity g)) = Some r"
    and "\<forall>r r'. sphere_highlighted_look (sphere_heap (fst (checkProximity g)) r) \<and>
              sphere_highlighted_look (sphere_heap (fst (checkProximity g)) r') \<longrightarrow> r = r'"
    by simp_all
qed

text \<open>
  A room with a mirror and a telephone both in range, and a garden with two spheres in
  range: after the check the nearer one looks highlighted and the other does not.
\<close>

theorem at_most_one_highlighted_witness:
  "viewer_reachable (place ''telephone'' 4 (place ''mirror'' 4.5 (initScene True []))) \<and>
   garden_reachable (plant [(0.4, 2.5), (0.2, 2.5)]) \<and>
   highlightedObject (fst (checkObjectProximity
      (place ''telephone'' 4 (place ''mirror'' 4.5 (initScene True []))))) = Some 0 \<and>
   highlighted_look (heap (fst (checkObjectProximity
      (place ''telephone'' 4 (place ''mirror'' 4.5 (initScene True []))))) 0) \<and>
   \<not> highlighted_look (heap (fst (checkObjectProximity
      (place ''telephone'' 4 (place ''mirror'' 4.5 (initScene True []))))) 1) \<and>
   highlightedSphere (fst (checkProximity (plant [(0.4, 2.5), (0.2, 2.5)]))) = Some 1 \<and>
   sphere_highlighted_look (sphere_heap (fst (checkProximity (plant [(0.4, 2.5), (0.2, 2.5)]))) 1) \<and>
   \<not> sphere_highlighted_look (sphere_heap (fst (checkProximity (plant [(0.4, 2.5), (0.2, 2.5)]))) 0)"
proof -
  have r1: "viewer_reachable (place ''telephone'' 4 (place ''mirror'' 4.5 (initScene True [])))"
    unfolding place_def by (intro reach_loadObject reach_initScene)
  have r2: "garden_reachable (plant [(0.4, 2.5), (0.2, 2.5)])"
    unfolding plant_def by (intro reach_createSpheres reach_init)
  have h1: "highlightedObject (fst (checkObjectProximity
      (place ''telephone'' 4 (place ''mirror'' 4.5 (initScene True []))))) = Some 0"
    by (simp add: checkObjectProximity_highlighted room_eval distance_eval)
  have l1: "highlighted_look (heap (fst (checkObjectProximity
      (place ''telephone'' 4 (place ''mirror'' 4.5 (initScene True []))))) 0)"
    by (simp add: checkObjectProximity_def removeHighlight_def addHighlight_def
          highlightMaterials_def highlighted_look_def highlightMat_def room_eval distance_eval)
  have h2: "highlightedSphere (fst (checkProximity (plant [(0.4, 2.5), (0.2, 2.5)]))) = Some 1"
    by (simp add: checkProximity_highlighted garden_eval distance_eval)
  have l2: "sphere_highlighted_look (sphere_heap (fst (checkProximity (plant [(0.4, 2.5), (0.2, 2.5)]))) 1)"
    by (simp add: checkProximity_def removeSphereHighlight_def addSphereHighlight_def
          sphere_highlighted_look_def highlightMat_def garden_eval distance_eval)
  from r1 r2 h1 l1 h2 l2
    at_most_one_highlighted
      [of "place ''telephone'' 4 (place ''mirror'' 4.5 (initScene True []))"
          "plant [(0.4, 2.5), (0.2, 2.5)]"]
  show ?thesis by (metis option.inject zero_neq_one)
qed

section \<open>Repeated checks are silent\<close>

lemma animate_again:
  "animate v (fst (animate v s)) = (fst (animate v s), [])"
proof -
  have "camera_position (fst (animate v s)) = v\<lparr>vy := cameraHeight\<rparr>"
    by (simp add: animate_def checkObjectProximity_frame updateCamera_def)
  then have "updateCamera v (fst (animate v s)) = fst (animate v s)"
    by (rule updateCamera_same)
  then show ?thesis
    by (simp add: animate_def[of v "fst (checkObjectProximity (updateCamera v s))"]
          animate_def[of v s] checkObjectProximity_again)
qed

lemma garden_animate_again:
  "garden_animate v (fst (garden_animate v g)) = (fst (garden_animate v g), [])"
proof -
  have "camera_position (fst (garden_animate v g)) = v\<lparr>vy := cameraHeight\<rparr>"
    by (simp add: garden_animate_def checkProximity_frame updateCamera_def)
  then have "updateCamera v (fst (garden_animate v g)) = fst (garden_animate v g)"
    by (rule updateCamera_same)
  then show ?thesis
    by (simp add: garden_animate_def[of v "fst (checkProximity (updateCamera v g))"]
          garden_animate_def[of v g] checkProximity_again)
qed

lemma animate_funpow:
  "((\<lambda>t. fst (animate v t)) ^^ n) (fst (animate v s)) = fst (animate v s)"
  by (induction n) (simp_all add: animate_again)

lemma garden_animate_funpow:
  "((\<lambda>t. fst (garden_animate v t)) ^^ n) (fst (garden_animate v g)) = fst (garden_animate v g)"
  by (induction n) (simp_all add: garden_animate_again)

lemma checkObjectProximity_quiet_iff:
  "(checkObjectProximity t = (t, [])) = (closestObject t = highlightedObject t)"
  by (auto simp: checkObjectProximity_def Let_def case_prod_beta)

lemma checkProximity_quiet_iff:
  "(checkProximity t = (t, [])) = (closestSphere t = highlightedSphere t)"
  by (auto simp: checkProximity_def Let_def case_prod_beta)

text \<open>
  Claim C3. A frame run again with the same camera position and the same registry
  executes none of the statements that swap materials, show or hide the overlay or store
  the highlight, and leaves the state as it is; so does every further frame. In general
  a proximity check is silent and changes nothing exactly when the nearest object in
  range is the stored one: it fires on a change of identity only.
\<close>

theorem repeated_tick_is_silent:
  "animate v (fst (animate v s)) = (fst (animate v s), []) \<and>
   (\<forall>n. animate v (((\<lambda>t. fst (animate v t)) ^^ n) (fst (animate v s))) = (fst (animate v s), [])) \<and>
   (\<forall>t. (checkObjectProximity t = (t, [])) = (closestObject t = highlightedObject t)) \<and>
   garden_animate v (fst (garden_animate v g)) = (fst (garden_animate v g), []) \<and>
   (\<forall>n. garden_animate v (((\<lambda>t. fst (garden_animate v t)) ^^ n) (fst (garden_animate v g)))
        = (fst (garden_animate v g), [])) \<and>
   (\<forall>t. (checkProximity t = (t, [])) = (closestSphere t = highlightedSphere t))"
  by (simp only: animate_funpow garden_animate_funpow animate_again garden_animate_again
        checkObjectProximity_quiet_iff checkProximity_quiet_iff simp_thms)

section \<open>What a proximity check leaves alone\<close>

text \<open>
  Claim C10. A proximity check changes neither the registry (its members and their
  order), nor the position or the type tag of any object, nor the scene graph or the
  camera; likewise for the spheres of the garden.
\<close>

theorem tick_preserves_registry_positions_types:
  "objects (fst (checkObjectProximity s)) = objects s \<and>
   (\<forall>r. position (heap (fst (checkObjectProximity s)) r) = position (heap s r)) \<and>
   (\<forall>r. userData_type (heap (fst (checkObjectProximity s)) r) = userData_type (heap s r)) \<and>
   scene (fst (checkObjectProximity s)) = scene s \<and>
   camera_position (fst (checkObjectProximity s)) = camera_position s \<and>
   spheres (fst (checkProximity g)) = spheres g \<and>
   (\<forall>r. sphere_position (sphere_heap (fst (checkProximity g)) r) = sphere_position (sphere_heap g r)) \<and>
   (\<forall>r. sphere_type (sphere_heap (fst (checkProximity g)) r) = sphere_type (sphere_heap g r)) \<and>
   garden_scene (fst (checkProximity g)) = garden_scene g \<and>
   camera_position (fst (checkProximity g)) = camera_position g"
  by (simp only: checkObjectProximity_frame checkProximity_frame simp_thms)

section \<open>A failed load\<close>

text \<open>
  Claim C8. When the loader reports an error, \<^verbatim>\<open>loadObject\<close> only writes to the console:
  the whole state, and with it the registry, the heap, the scene graph and what the next
  proximity check selects, is what it was.
\<close>

theorem failed_load_registers_nothing:
  "loadObject folderName pos rotation_y objectType LoadError s = (s, [ConsoleError]) \<and>
   objects (fst (loadObject folderName pos rotation_y objectType LoadError s)) = objects s \<and>
   heap (fst (loadObject folderName pos rotation_y objectType LoadError s)) = heap s \<and>
   closestObject (fst (loadObject folderName pos rotation_y objectType LoadError s)) = closestObject s"
  by (simp add: loadObject_def)

section \<open>Entering and leaving\<close>

lemma checkObjectProximity_leave:
  assumes "highlightedObject t = Some a" "closestObject t \<noteq> Some a"
  shows "\<exists>post. snd (checkObjectProximity t) = RestoreMaterials a # OverlayHide # post"
  using assms by (simp add: checkObjectProximity_def Let_def case_prod_beta removeHighlight_def)

lemma checkObjectProximity_enter:
  assumes "closestObject t = Some a" "highlightedObject t \<noteq> Some a"
  shows "(\<exists>pre. snd (checkObjectProximity t) =
           pre @ [HighlightMaterials a,
                  DescriptionText (textContent (objectDescriptions (userData_type (heap t a)))),
                  OverlayShow, StoreHighlighted (Some a)]) \<and>
         highlightedObject (fst (checkObjectProximity t)) = Some a \<and>
         overlay_hidden (fst (checkObjectProximity t)) = False \<and>
         description (fst (checkObjectProximity t)) =
           textContent (objectDescriptions (userData_type (heap t a)))"
proof -
  have ty: "userData_type (heap (fst (removeHighlight t)) a) = userData_type (heap t a)"
    by (rule removeHighlight_frame)
  from assms show ?thesis
    by (simp add: checkObjectProximity_def Let_def case_prod_beta addHighlight_def ty)
qed

lemma checkProximity_leave:
  assumes "highlightedSphere t = Some a" "closestSphere t \<noteq> Some a"
  shows "\<exists>post. snd (checkProximity t) = RestoreMaterials a # OverlayHide # post"
  using assms by (simp add: checkProximity_def Let_def case_prod_beta removeSphereHighlight_def)

lemma removeSphereHighlight_content:
  "userData_content (sphere_heap (fst (removeSphereHighlight t)) a) = userData_content (sphere_heap t a)"
  by (simp add: removeSphereHighlight_def split: option.splits)

lemma checkProximity_content:
  "userData_content (sphere_heap (fst (checkProximity t)) a) = userData_content (sphere_heap t a)"
  by (simp add: checkProximity_def Let_def case_prod_beta removeSphereHighlight_def
        addSphereHighlight_def split: option.splits)

lemma checkProximity_enter:
  assumes "closestSphere t = Some a" "highlightedSphere t \<noteq> Some a"
  shows "(\<exists>pre. snd (checkProximity t) =
           pre @ [HighlightMaterials a,
                  DescriptionText (textContent (userData_content (sphere_heap t a))),
                  OverlayShow, StoreHighlighted (Some a)]) \<and>
         highlightedSphere (fst (checkProximity t)) = Some a \<and>
         overlay_hidden (fst (checkProximity t)) = False \<and>
         description (fst (checkProximity t)) = textContent (userData_content (sphere_heap t a))"
  using assms
  by (simp add: checkProximity_def Let_def case_prod_beta addSphereHighlight_def
        removeSphereHighlight_content)

lemma updateCamera_twice: "updateCamera v (updateCamera w s) = updateCamera v s"
  by (simp add: updateCamera_def)

lemma updateCamera_frame:
  "highlightedObject (updateCamera v s) = highlightedObject s"
  "heap (updateCamera v s) = heap s"
  "objects (updateCamera v s) = objects s"
  "highlightedSphere (updateCamera v g) = highlightedSphere g"
  "sphere_heap (updateCamera v g) = sphere_heap g"
  "spheres (updateCamera v g) = spheres g"
  by (simp_all add: updateCamera_def)

section \<open>Runs of frames\<close>

lemma switch_point:
  fixes P :: "nat \<Rightarrow> bool"
  shows "P i \<Longrightarrow> \<not> P j \<Longrightarrow> i < j \<Longrightarrow> \<exists>n. i \<le> n \<and> n < j \<and> P n \<and> \<not> P (Suc n)"
proof (induction j)
  case 0
  then show ?case by simp
next
  case (Suc j)
  show ?case
  proof (cases "P j")
    case True
    with Suc.prems show ?thesis by (intro exI[of _ j]) simp
  next
    case False
    with Suc.prems have "i < j" by (cases "i = j") auto
    from Suc.IH[OF Suc.prems(1) False this] show ?thesis by auto
  qed
qed

lemma frames_append: "frames (xs @ ys) s = frames ys (frames xs s)"
  by (induction xs arbitrary: s) simp_all

lemma frames_Suc:
  "n < length vs \<Longrightarrow> frames (take (Suc n) vs) s = fst (animate (vs ! n) (frames (take n vs) s))"
  by (simp add: take_Suc_conv_app_nth frames_append)

lemma frames_later:
  assumes "m \<le> n"
  shows "frames (take n vs) s = frames (drop m (take n vs)) (frames (take m vs) s)"
proof -
  have "take m (take n vs) = take m vs" using assms by (simp add: min_def)
  then have "take n vs = take m vs @ drop m (take n vs)"
    using append_take_drop_id[of m "take n vs"] by simp
  then have "frames (take n vs) s = frames (take m vs @ drop m (take n vs)) s" by simp
  then show ?thesis by (simp only: frames_append)
qed

lemma animate_frame:
  "objects (fst (animate v s)) = objects s"
  "position (heap (fst (animate v s)) r) = position (heap s r)"
  "userData_type (heap (fst (animate v s)) r) = userData_type (heap s r)"
  by (simp_all add: animate_def checkObjectProximity_frame updateCamera_frame)

lemma frames_frame:
  "objects (frames vs s) = objects s"
  "position (heap (frames vs s) r) = position (heap s r)"
  "userData_type (heap (frames vs s) r) = userData_type (heap s r)"
  by (induction vs arbitrary: s) (simp_all add: animate_frame)

lemma viewer_reachable_animate: "viewer_reachable s \<Longrightarrow> viewer_reachable (fst (animate v s))"
  by (simp add: animate_def reach_checkObjectProximity reach_updateCamera)

lemma viewer_reachable_frames: "viewer_reachable s \<Longrightarrow> viewer_reachable (frames vs s)"
  by (induction vs arbitrary: s) (simp_all add: viewer_reachable_animate)

lemma animate_highlighted:
  "highlightedObject (fst (animate v t)) = closestObject (updateCamera v t)"
  by (simp add: animate_def checkObjectProximity_highlighted)

lemma closestObject_moved_after_frames:
  "closestObject (updateCamera v (frames ws s)) = closestObject (updateCamera v s)"
  by (rule closestObject_cong) (simp_all add: updateCamera_def frames_frame)

lemma frames_selected:
  "n < length vs \<Longrightarrow>
     highlightedObject (frames (take (Suc n) vs) s) = closestObject (updateCamera (vs ! n) s)"
  by (simp add: frames_Suc animate_highlighted closestObject_moved_after_frames)

lemma createHighlightMaterial_unfold:
  "createHighlightMaterial x =
     (case x of
        Single m \<Rightarrow> Single (m\<lparr>emissive := 0x666666, emissiveIntensity := 0.5\<rparr>)
      | Multi ms \<Rightarrow> Multi (map (\<lambda>m. m\<lparr>emissive := 0x666666, emissiveIntensity := 0.5\<rparr>) ms))"
  by (cases x) (simp_all add: highlightMat_def)

lemma animate_changed_overlay:
  assumes "highlightedObject (fst (animate v t)) \<noteq> highlightedObject t"
  shows "overlay_hidden (fst (animate v t)) = (highlightedObject (fst (animate v t)) = None)"
  using assms
  by (auto simp: animate_def checkObjectProximity_def Let_def case_prod_beta updateCamera_def
        removeHighlight_def addHighlight_def split: option.splits)

lemma animate_overlay:
  assumes "overlay_hidden t = (highlightedObject t = None)"
  shows "overlay_hidden (fst (animate v t)) = (highlightedObject (fst (animate v t)) = None)"
proof (cases "highlightedObject (fst (animate v t)) = highlightedObject t")
  case True
  then have "closestObject (updateCamera v t) = highlightedObject (updateCamera v t)"
    by (simp add: animate_highlighted updateCamera_frame)
  then have "fst (animate v t) = updateCamera v t"
    by (simp add: animate_def checkObjectProximity_quiet)
  with assms show ?thesis by (simp add: updateCamera_def)
next
  case False
  then show ?thesis by (rule animate_changed_overlay)
qed

lemma frames_overlay:
  "overlay_hidden t = (highlightedObject t = None) \<Longrightarrow>
     overlay_hidden (frames ws t) = (highlightedObject (frames ws t) = None)"
  by (induction ws arbitrary: t) (simp_all add: animate_overlay)

lemma animate_leave:
  assumes inv: "viewer_inv t"
    and was: "highlightedObject t = Some a"
    and now: "highlightedObject (fst (animate v t)) \<noteq> Some a"
  shows "(\<exists>post. snd (animate v t) = RestoreMaterials a # OverlayHide # post) \<and>
         meshes (heap (fst (animate v t)) a)
           = map (\<lambda>m. m\<lparr>material := originalMaterial m\<rparr>) (meshes (heap t a)) \<and>
         \<not> highlighted_look (heap (fst (animate v t)) a) \<and>
         overlay_hidden (fst (animate v t)) = (highlightedObject (fst (animate v t)) = None)"
proof -
  from now have away: "closestObject (updateCamera v t) \<noteq> Some a"
    by (simp add: animate_highlighted)
  from was have stored: "highlightedObject (updateCamera v t) = Some a"
    by (simp add: updateCamera_frame)
  from inv have saved: "saved_ok (heap t a)" by (simp add: viewer_inv_def)
  have effects: "\<exists>post. snd (animate v t) = RestoreMaterials a # OverlayHide # post"
    using checkObjectProximity_leave[OF stored away] by (simp add: animate_def)
  have cell: "heap (fst (animate v t)) a = restoreMaterials (heap t a)"
    using away stored
    by (auto simp: animate_def checkObjectProximity_def Let_def case_prod_beta
          removeHighlight_def addHighlight_def updateCamera_frame split: option.splits)
  have restored: "meshes (heap (fst (animate v t)) a)
           = map (\<lambda>m. m\<lparr>material := originalMaterial m\<rparr>) (meshes (heap t a))"
    by (simp add: cell restoreMaterials_saved[OF saved])
  have look: "\<not> highlighted_look (heap (fst (animate v t)) a)"
    by (simp add: cell restoreMaterials_normal[OF saved])
  have "highlightedObject (fst (animate v t)) \<noteq> highlightedObject t"
    using was now by simp
  then have overlay: "overlay_hidden (fst (animate v t)) = (highlightedObject (fst (animate v t)) = None)"
    by (rule animate_changed_overlay)
  from effects restored look overlay show ?thesis by simp
qed

lemma animate_enter:
  assumes inv: "viewer_inv t"
    and was: "highlightedObject t \<noteq> Some a"
    and now: "highlightedObject (fst (animate v t)) = Some a"
  shows "\<not> highlighted_look (heap t a) \<and>
         (\<exists>pre. snd (animate v t) =
            pre @ [HighlightMaterials a,
                   DescriptionText (textContent (objectDescriptions (userData_type (heap t a)))),
                   OverlayShow, StoreHighlighted (Some a)]) \<and>
         meshes (heap (fst (animate v t)) a)
           = map (\<lambda>m. m\<lparr>material := (case originalMaterial m of
                  Single x \<Rightarrow> Single (x\<lparr>emissive := 0x666666, emissiveIntensity := 0.5\<rparr>)
                | Multi xs \<Rightarrow> Multi (map (\<lambda>x. x\<lparr>emissive := 0x666666, emissiveIntensity := 0.5\<rparr>) xs))\<rparr>)
               (meshes (heap t a)) \<and>
         overlay_hidden (fst (animate v t)) = False \<and>
         description (fst (animate v t)) = textContent (objectDescriptions (userData_type (heap t a)))"
proof -
  from now have sel: "closestObject (updateCamera v t) = Some a"
    by (simp add: animate_highlighted)
  from was have new: "highlightedObject (updateCamera v t) \<noteq> Some a"
    by (simp add: updateCamera_frame)
  from inv was have look: "\<not> highlighted_look (heap t a)"
    by (auto simp: viewer_inv_def)
  from checkObjectProximity_enter[OF sel new]
  have effects: "\<exists>pre. snd (animate v t) =
            pre @ [HighlightMaterials a,
                   DescriptionText (textContent (objectDescriptions (userData_type (heap t a)))),
                   OverlayShow, StoreHighlighted (Some a)]"
    and shown: "overlay_hidden (fst (animate v t)) = False"
    and descr: "description (fst (animate v t)) = textContent (objectDescriptions (userData_type (heap t a)))"
    by (simp_all add: animate_def updateCamera_frame)
  have cell: "heap (fst (animate v t)) a = highlightMaterials (heap t a)"
    using sel new
    by (auto simp: animate_def checkObjectProximity_def Let_def case_prod_beta
          removeHighlight_def addHighlight_def updateCamera_frame split: option.splits)
  have lit: "meshes (heap (fst (animate v t)) a)
           = map (\<lambda>m. m\<lparr>material := (case originalMaterial m of
                  Single x \<Rightarrow> Single (x\<lparr>emissive := 0x666666, emissiveIntensity := 0.5\<rparr>)
                | Multi xs \<Rightarrow> Multi (map (\<lambda>x. x\<lparr>emissive := 0x666666, emissiveIntensity := 0.5\<rparr>) xs))\<rparr>)
               (meshes (heap t a))"
    by (simp add: cell highlightMaterials_def createHighlightMaterial_unfold)
  from look effects lit shown descr show ?thesis by simp
qed

lemma garden_frames_append: "garden_frames (xs @ ys) g = garden_frames ys (garden_frames xs g)"
  by (induction xs arbitrary: g) simp_all

lemma garden_frames_Suc:
  "n < length ws \<Longrightarrow>
     garden_frames (take (Suc n) ws) g = fst (garden_animate (ws ! n) (garden_frames (take n ws) g))"
  by (simp add: take_Suc_conv_app_nth garden_frames_append)

lemma garden_frames_later:
  assumes "m \<le> n"
  shows "garden_frames (take n ws) g = garden_frames (drop m (take n ws)) (garden_frames (take m ws) g)"
proof -
  have "take m (take n ws) = take m ws" using assms by (simp add: min_def)
  then have "take n ws = take m ws @ drop m (take n ws)"
    using append_take_drop_id[of m "take n ws"] by simp
  then have "garden_frames (take n ws) g = garden_frames (take m ws @ drop m (take n ws)) g" by simp
  then show ?thesis by (simp only: garden_frames_append)
qed

lemma garden_animate_frame:
  "spheres (fst (garden_animate v g)) = spheres g"
  "sphere_position (sphere_heap (fst (garden_animate v g)) r) = sphere_position (sphere_heap g r)"
  "userData_content (sphere_heap (fst (garden_animate v g)) r) = userData_content (sphere_heap g r)"
  by (simp_all add: garden_animate_def checkProximity_frame checkProximity_content updateCamera_frame)

lemma garden_frames_frame:
  "spheres (garden_frames ws g) = spheres g"
  "sphere_position (sphere_heap (garden_frames ws g) r) = sphere_position (sphere_heap g r)"
  "userData_content (sphere_heap (garden_frames ws g) r) = userData_content (sphere_heap g r)"
  by (induction ws arbitrary: g) (simp_all add: garden_animate_frame)

lemma garden_animate_highlighted:
  "highlightedSphere (fst (garden_animate v t)) = closestSphere (updateCamera v t)"
  by (simp add: garden_animate_def checkProximity_highlighted)

lemma closestSphere_moved_after_frames:
  "closestSphere (updateCamera v (garden_frames ws g)) = closestSphere (updateCamera v g)"
  by (rule closestSphere_cong) (simp_all add: updateCamera_def garden_frames_frame)

lemma garden_frames_selected:
  "n < length ws \<Longrightarrow>
     highlightedSphere (garden_frames (take (Suc n) ws) g) = closestSphere (updateCamera (ws ! n) g)"
  by (simp add: garden_frames_Suc garden_animate_highlighted closestSphere_moved_after_frames)

lemma garden_animate_changed_overlay:
  assumes "highlightedSphere (fst (garden_animate v t)) \<noteq> highlightedSphere t"
  shows "overlay_hidden (fst (garden_animate v t)) = (highlightedSphere (fst (garden_animate v t)) = None)"
  using assms
  by (auto simp: garden_animate_def checkProximity_def Let_def case_prod_beta updateCamera_def
        removeSphereHighlight_def addSphereHighlight_def split: option.splits)

lemma garden_animate_overlay:
  assumes "overlay_hidden t = (highlightedSphere t = None)"
  shows "overlay_hidden (fst (garden_animate v t)) = (highlightedSphere (fst (garden_animate v t)) = None)"
proof (cases "highlightedSphere (fst (garden_animate v t)) = highlightedSphere t")
  case True
  then have "closestSphere (updateCamera v t) = highlightedSphere (updateCamera v t)"
    by (simp add: garden_animate_highlighted updateCamera_frame)
  then have "fst (garden_animate v t) = updateCamera v t"
    by (simp add: garden_animate_def checkProximity_quiet)
  with assms show ?thesis by (simp add: updateCamera_def)
next
  case False
  then show ?thesis by (rule garden_animate_changed_overlay)
qed

lemma garden_frames_overlay:
  "overlay_hidden t = (highlightedSphere t = None) \<Longrightarrow>
     overlay_hidden (garden_frames ws t) = (highlightedSphere (garden_frames ws t) = None)"
  by (induction ws arbitrary: t) (simp_all add: garden_animate_overlay)

lemma garden_animate_leave:
  assumes was: "highlightedSphere t = Some b"
    and now: "highlightedSphere (fst (garden_animate v t)) \<noteq> Some b"
  shows "(\<exists>post. snd (garden_animate v t) = RestoreMaterials b # OverlayHide # post) \<and>
         sphere_material (sphere_heap (fst (garden_animate v t)) b)
           = userData_originalMaterial (sphere_heap t b) \<and>
         overlay_hidden (fst (garden_animate v t)) = (highlightedSphere (fst (garden_animate v t)) = None)"
proof -
  from now have away: "closestSphere (updateCamera v t) \<noteq> Some b"
    by (simp add: garden_animate_highlighted)
  from was have stored: "highlightedSphere (updateCamera v t) = Some b"
    by (simp add: updateCamera_frame)
  have effects: "\<exists>post. snd (garden_animate v t) = RestoreMaterials b # OverlayHide # post"
    using checkProximity_leave[OF stored away] by (simp add: garden_animate_def)
  have restored: "sphere_material (sphere_heap (fst (garden_animate v t)) b)
           = userData_originalMaterial (sphere_heap t b)"
    using away stored
    by (auto simp: garden_animate_def checkProximity_def Let_def case_prod_beta
          removeSphereHighlight_def addSphereHighlight_def updateCamera_frame split: option.splits)
  have "highlightedSphere (fst (garden_animate v t)) \<noteq> highlightedSphere t"
    using was now by simp
  then have overlay:
    "overlay_hidden (fst (garden_animate v t)) = (highlightedSphere (fst (garden_animate v t)) = None)"
    by (rule garden_animate_changed_overlay)
  from effects restored overlay show ?thesis by simp
qed

lemma garden_animate_enter:
  assumes was: "highlightedSphere t \<noteq> Some b"
    and now: "highlightedSphere (fst (garden_animate v t)) = Some b"
  shows "(\<exists>pre. snd (garden_animate v t) =
            pre @ [HighlightMaterials b,
                   DescriptionText (textContent (userData_content (sphere_heap t b))),
                   OverlayShow, StoreHighlighted (Some b)]) \<and>
         sphere_material (sphere_heap (fst (garden_animate v t)) b)
           = (userData_originalMaterial (sphere_heap t b))
               \<lparr>emissive := 0x666666, emissiveIntensity := 0.5\<rparr> \<and>
         overlay_hidden (fst (garden_animate v t)) = False \<and>
         description (fst (garden_animate v t)) = textContent (userData_content (sphere_heap t b))"
proof -
  from now have sel: "closestSphere (updateCamera v t) = Some b"
    by (simp add: garden_animate_highlighted)
  from was have new: "highlightedSphere (updateCamera v t) \<noteq> Some b"
    by (simp add: updateCamera_frame)
  from checkProximity_enter[OF sel new]
  have effects: "\<exists>pre. snd (garden_animate v t) =
            pre @ [HighlightMaterials b,
                   DescriptionText (textContent (userData_content (sphere_heap t b))),
                   OverlayShow, StoreHighlighted (Some b)]"
    and shown: "overlay_hidden (fst (garden_animate v t)) = False"
    and descr: "description (fst (garden_animate v t)) = textContent (userData_content (sphere_heap t b))"
    by (simp_all add: garden_animate_def updateCamera_frame)
  have lit: "sphere_material (sphere_heap (fst (garden_animate v t)) b)
           = (userData_originalMaterial (sphere_heap t b))
               \<lparr>emissive := 0x666666, emissiveIntensity := 0.5\<rparr>"
    using sel new
    by (auto simp: garden_animate_def checkProximity_def Let_def case_prod_beta
          removeSphereHighlight_def addSphereHighlight_def updateCamera_frame highlightMat_def
        split: option.splits)
  from effects lit shown descr show ?thesis by simp
qed

lemma room_reentry:
  assumes hyp: "viewer_reachable s \<and> i < j \<and> j < k \<and> k < length vs \<and>
    highlightedObject (frames (take (Suc i) vs) s) = Some a \<and>
    highlightedObject (frames (take (Suc j) vs) s) \<noteq> Some a \<and>
    highlightedObject (frames (take (Suc k) vs) s) = Some a"
  shows "(\<exists>j' k'. i < j' \<and> j' \<le> j \<and> j < k' \<and> k' \<le> k \<and>
        highlightedObject (frames (take j' vs) s) = Some a \<and>
        (\<exists>post. snd (animate (vs ! j') (frames (take j' vs) s))
            = RestoreMaterials a # OverlayHide # post) \<and>
        meshes (heap (frames (take (Suc j') vs) s) a)
          = map (\<lambda>m. m\<lparr>material := originalMaterial m\<rparr>) (meshes (heap (frames (take j' vs) s) a)) \<and>
        \<not> highlighted_look (heap (frames (take (Suc j') vs) s) a) \<and>
        highlightedObject (frames (take (Suc j') vs) s) \<noteq> Some a \<and>
        overlay_hidden (frames (take (Suc j') vs) s)
          = (highlightedObject (frames (take (Suc j') vs) s) = None) \<and>
        highlightedObject (frames (take k' vs) s) \<noteq> Some a \<and>
        \<not> highlighted_look (heap (frames (take k' vs) s) a) \<and>
        (\<exists>pre. snd (animate (vs ! k') (frames (take k' vs) s))
            = pre @ [HighlightMaterials a,
                     DescriptionText (textContent (objectDescriptions (userData_type (heap s a)))),
                     OverlayShow, StoreHighlighted (Some a)]) \<and>
        meshes (heap (frames (take (Suc k') vs) s) a)
          = map (\<lambda>m. m\<lparr>material := (case originalMaterial m of
                Single x \<Rightarrow> Single (x\<lparr>emissive := 0x666666, emissiveIntensity := 0.5\<rparr>)
              | Multi xs \<Rightarrow> Multi (map (\<lambda>x. x\<lparr>emissive := 0x666666, emissiveIntensity := 0.5\<rparr>) xs))\<rparr>)
              (meshes (heap (frames (take k' vs) s) a)) \<and>
        highlightedObject (frames (take (Suc k') vs) s) = Some a \<and>
        overlay_hidden (frames (take (Suc k') vs) s) = False \<and>
        description (frames (take (Suc k') vs) s)
          = textContent (objectDescriptions (userData_type (heap s a)))) \<and>
      overlay_hidden (frames (take (Suc k) vs) s) = False"
proof -
  let ?F = "\<lambda>n. frames (take n vs) s"
  let ?sel = "\<lambda>n. highlightedObject (?F (Suc n)) = Some a"
  from hyp have reach: "viewer_reachable s" and ij: "i < j" and jk: "j < k" and kl: "k < length vs"
    and si: "?sel i" and sj: "\<not> ?sel j" and sk: "?sel k"
    by simp_all
  from switch_point[of ?sel i j, OF si sj ij]
  obtain n1 where n1: "i \<le> n1" "n1 < j" "?sel n1" "\<not> ?sel (Suc n1)" by blast
  from switch_point[of "\<lambda>n. \<not> ?sel n" j k] sj sk jk
  obtain n2 where n2: "j \<le> n2" "n2 < k" "\<not> ?sel n2" "?sel (Suc n2)" by blast
  have len1: "Suc n1 < length vs" and len2: "Suc n2 < length vs"
    using n1 n2 jk kl by simp_all
  have inv: "viewer_inv (?F n)" for n
    using reach by (simp add: viewer_reachable_frames viewer_reachable_inv)
  have ty: "userData_type (heap (?F n) a) = userData_type (heap s a)" for n
    by (rule frames_frame)
  have step1: "?F (Suc (Suc n1)) = fst (animate (vs ! Suc n1) (?F (Suc n1)))"
    using len1 by (rule frames_Suc)
  have step2: "?F (Suc (Suc n2)) = fst (animate (vs ! Suc n2) (?F (Suc n2)))"
    using len2 by (rule frames_Suc)
  have left: "highlightedObject (fst (animate (vs ! Suc n1) (?F (Suc n1)))) \<noteq> Some a"
    using n1(4) step1 by simp
  have returned: "highlightedObject (fst (animate (vs ! Suc n2) (?F (Suc n2)))) = Some a"
    using n2(4) step2 by simp
  note leave = animate_leave[OF inv n1(3) left]
  note enter = animate_enter[OF inv n2(3) returned]
  have "overlay_hidden (?F (Suc (Suc n1))) = (highlightedObject (?F (Suc (Suc n1))) = None)"
    using leave by (simp add: step1)
  moreover have "?F (Suc k) = frames (drop (Suc (Suc n1)) (take (Suc k) vs)) (?F (Suc (Suc n1)))"
    using n1 jk by (intro frames_later) simp
  ultimately have "overlay_hidden (?F (Suc k)) = (highlightedObject (?F (Suc k)) = None)"
    using frames_overlay by simp
  with sk have final: "overlay_hidden (?F (Suc k)) = False" by simp
  show ?thesis
    apply (rule conjI)
     apply (rule exI[of _ "Suc n1"])
     apply (rule exI[of _ "Suc n2"])
    using n1 n2 leave enter left returned
     apply (simp add: step1 step2 ty)
    using final apply simp
    done
qed

lemma garden_reentry:
  assumes hyp: "p < q \<and> q < r \<and> r < length ws \<and>
    highlightedSphere (garden_frames (take (Suc p) ws) g) = Some b \<and>
    highlightedSphere (garden_frames (take (Suc q) ws) g) \<noteq> Some b \<and>
    highlightedSphere (garden_frames (take (Suc r) ws) g) = Some b"
  shows "(\<exists>j' k'. p < j' \<and> j' \<le> q \<and> q < k' \<and> k' \<le> r \<and>
        highlightedSphere (garden_frames (take j' ws) g) = Some b \<and>
        (\<exists>post. snd (garden_animate (ws ! j') (garden_frames (take j' ws) g))
            = RestoreMaterials b # OverlayHide # post) \<and>
        sphere_material (sphere_heap (garden_frames (take (Suc j') ws) g) b)
          = userData_originalMaterial (sphere_heap (garden_frames (take j' ws) g) b) \<and>
        highlightedSphere (garden_frames (take (Suc j') ws) g) \<noteq> Some b \<and>
        overlay_hidden (garden_frames (take (Suc j') ws) g)
          = (highlightedSphere (garden_frames (take (Suc j') ws) g) = None) \<and>
        highlightedSphere (garden_frames (take k' ws) g) \<noteq> Some b \<and>
        (\<exists>pre. snd (garden_animate (ws ! k') (garden_frames (take k' ws) g))
            = pre @ [HighlightMaterials b,
                     DescriptionText (textContent (userData_content (sphere_heap g b))),
                     OverlayShow, StoreHighlighted (Some b)]) \<and>
        sphere_material (sphere_heap (garden_frames (take (Suc k') ws) g) b)
          = (userData_originalMaterial (sphere_heap (garden_frames (take k' ws) g) b))
              \<lparr>emissive := 0x666666, emissiveIntensity := 0.5\<rparr> \<and>
        highlightedSphere (garden_frames (take (Suc k') ws) g) = Some b \<and>
        overlay_hidden (garden_frames (take (Suc k') ws) g) = False \<and>
        description (garden_frames (take (Suc k') ws) g)
          = textContent (userData_content (sphere_heap g b))) \<and>
      overlay_hidden (garden_frames (take (Suc r) ws) g) = False"
proof -
  let ?F = "\<lambda>n. garden_frames (take n ws) g"
  let ?sel = "\<lambda>n. highlightedSphere (?F (Suc n)) = Some b"
  from hyp have ij: "p < q" and jk: "q < r" and kl: "r < length ws"
    and si: "?sel p" and sj: "\<not> ?sel q" and sk: "?sel r"
    by simp_all
  from switch_point[of ?sel p q, OF si sj ij]
  obtain n1 where n1: "p \<le> n1" "n1 < q" "?sel n1" "\<not> ?sel (Suc n1)" by blast
  from switch_point[of "\<lambda>n. \<not> ?sel n" q r] sj sk jk
  obtain n2 where n2: "q \<le> n2" "n2 < r" "\<not> ?sel n2" "?sel (Suc n2)" by blast
  have len1: "Suc n1 < length ws" and len2: "Suc n2 < length ws"
    using n1 n2 jk kl by simp_all
  have ty: "userData_content (sphere_heap (?F n) b) = userData_content (sphere_heap g b)" for n
    by (rule garden_frames_frame)
  have step1: "?F (Suc (Suc n1)) = fst (garden_animate (ws ! Suc n1) (?F (Suc n1)))"
    using len1 by (rule garden_frames_Suc)
  have step2: "?F (Suc (Suc n2)) = fst (garden_animate (ws ! Suc n2) (?F (Suc n2)))"
    using len2 by (rule garden_frames_Suc)
  have left: "highlightedSphere (fst (garden_animate (ws ! Suc n1) (?F (Suc n1)))) \<noteq> Some b"
    using n1(4) step1 by simp
  have returned: "highlightedSphere (fst (garden_animate (ws ! Suc n2) (?F (Suc n2)))) = Some b"
    using n2(4) step2 by simp
  note leave = garden_animate_leave[OF n1(3) left]
  note enter = garden_animate_enter[OF n2(3) returned]
  have "overlay_hidden (?F (Suc (Suc n1))) = (highlightedSphere (?F (Suc (Suc n1))) = None)"
    using leave by (simp add: step1)
  moreover have "?F (Suc r) = garden_frames (drop (Suc (Suc n1)) (take (Suc r) ws)) (?F (Suc (Suc n1)))"
    using n1 jk by (intro garden_frames_later) simp
  ultimately have "overlay_hidden (?F (Suc r)) = (highlightedSphere (?F (Suc r)) = None)"
    using garden_frames_overlay by simp
  with sk have final: "overlay_hidden (?F (Suc r)) = False" by simp
  show ?thesis
    apply (rule conjI)
     apply (rule exI[of _ "Suc n1"])
     apply (rule exI[of _ "Suc n2"])
    using n1 n2 leave enter left returned
     apply (simp add: step1 step2 ty)
    using final apply simp
    done
qed

section \<open>Leaving and coming back\<close>

text \<open>
  Claim C9. Take any run of frames of the room viewer from a state the page can reach,
  and three frames \<open>i < j < k\<close> of it such that object \<open>a\<close> is the stored highlight
  after frame \<open>i\<close>, is not after frame \<open>j\<close>, and is again after frame \<open>k\<close>. Then
  there are a frame \<open>j'\<close> in \<open>i < j' \<le> j\<close> that leaves \<open>a\<close> and a frame \<open>k'\<close> in
  \<open>j < k' \<le> k\<close> that enters it afresh. Frame \<open>j'\<close> starts with \<open>a\<close> stored; it begins by
  restoring the materials and hiding the overlay, and after it every mesh of \<open>a\<close>
  carries its saved material again, \<open>a\<close> is no longer stored, and the overlay is hidden
  unless another object was entered. Frame \<open>k'\<close> starts with \<open>a\<close> not stored and looking
  normal; it ends by highlighting the materials, writing the description, showing the
  overlay and storing \<open>a\<close>, and after it every mesh of \<open>a\<close> carries its saved material
  with the emissive colour \<open>0x666666\<close> at intensity 0.5, the overlay is shown with the
  description of \<open>a\<close>, and \<open>a\<close> is stored. After frame \<open>k\<close> the overlay is shown. The
  same holds for a sphere of the garden, from any state.
\<close>

theorem reentry_fires_enter_again:
  "(viewer_reachable s \<and> i < j \<and> j < k \<and> k < length vs \<and>
    highlightedObject (frames (take (Suc i) vs) s) = Some a \<and>
    highlightedObject (frames (take (Suc j) vs) s) \<noteq> Some a \<and>
    highlightedObject (frames (take (Suc k) vs) s) = Some a \<longrightarrow>
      (\<exists>j' k'. i < j' \<and> j' \<le> j \<and> j < k' \<and> k' \<le> k \<and>
        highlightedObject (frames (take j' vs) s) = Some a \<and>
        (\<exists>post. snd (animate (vs ! j') (frames (take j' vs) s))
            = RestoreMaterials a # OverlayHide # post) \<and>
        meshes (heap (frames (take (Suc j') vs) s) a)
          = map (\<lambda>m. m\<lparr>material := originalMaterial m\<rparr>) (meshes (heap (frames (take j' vs) s) a)) \<and>
        \<not> highlighted_look (heap (frames (take (Suc j') vs) s) a) \<and>
        highlightedObject (frames (take (Suc j') vs) s) \<noteq> Some a \<and>
        overlay_hidden (frames (take (Suc j') vs) s)
          = (highlightedObject (frames (take (Suc j') vs) s) = None) \<and>
        highlightedObject (frames (take k' vs) s) \<noteq> Some a \<and>
        \<not> highlighted_look (heap (frames (take k' vs) s) a) \<and>
        (\<exists>pre. snd (animate (vs ! k') (frames (take k' vs) s))
            = pre @ [HighlightMaterials a,
                     DescriptionText (textContent (objectDescriptions (userData_type (heap s a)))),
                     OverlayShow, StoreHighlighted (Some a)]) \<and>
        meshes (heap (frames (take (Suc k') vs) s) a)
          = map (\<lambda>m. m\<lparr>material := (case originalMaterial m of
                Single x \<Rightarrow> Single (x\<lparr>emissive := 0x666666, emissiveIntensity := 0.5\<rparr>)
              | Multi xs \<Rightarrow> Multi (map (\<lambda>x. x\<lparr>emissive := 0x666666, emissiveIntensity := 0.5\<rparr>) xs))\<rparr>)
              (meshes (heap (frames (take k' vs) s) a)) \<and>
        highlightedObject (frames (take (Suc k') vs) s) = Some a \<and>
        overlay_hidden (frames (take (Suc k') vs) s) = False \<and>
        description (frames (take (Suc k') vs) s)
          = textContent (objectDescriptions (userData_type (heap s a)))) \<and>
      overlay_hidden (frames (take (Suc k) vs) s) = False) \<and>
   (p < q \<and> q < r \<and> r < length ws \<and>
    highlightedSphere (garden_frames (take (Suc p) ws) g) = Some b \<and>
    highlightedSphere (garden_frames (take (Suc q) ws) g) \<noteq> Some b \<and>
    highlightedSphere (garden_frames (take (Suc r) ws) g) = Some b \<longrightarrow>
      (\<exists>j' k'. p < j' \<and> j' \<le> q \<and> q < k' \<and> k' \<le> r \<and>
        highlightedSphere (garden_frames (take j' ws) g) = Some b \<and>
        (\<exists>post. snd (garden_animate (ws ! j') (garden_frames (take j' ws) g))
            = RestoreMaterials b # OverlayHide # post) \<and>
        sphere_material (sphere_heap (garden_frames (take (Suc j') ws) g) b)
          = userData_originalMaterial (sphere_heap (garden_frames (take j' ws) g) b) \<and>
        highlightedSphere (garden_frames (take (Suc j') ws) g) \<noteq> Some b \<and>
        overlay_hidden (garden_frames (take (Suc j') ws) g)
          = (highlightedSphere (garden_frames (take (Suc j') ws) g) = None) \<and>
        highlightedSphere (garden_frames (take k' ws) g) \<noteq> Some b \<and>
        (\<exists>pre. snd (garden_animate (ws ! k') (garden_frames (take k' ws) g))
            = pre @ [HighlightMaterials b,
                     DescriptionText (textContent (userData_content (sphere_heap g b))),
                     OverlayShow, StoreHighlighted (Some b)]) \<and>
        sphere_material (sphere_heap (garden_frames (take (Suc k') ws) g) b)
          = (userData_originalMaterial (sphere_heap (garden_frames (take k' ws) g) b))
              \<lparr>emissive := 0x666666, emissiveIntensity := 0.5\<rparr> \<and>
        highlightedSphere (garden_frames (take (Suc k') ws) g) = Some b \<and>
        overlay_hidden (garden_frames (take (Suc k') ws) g) = False \<and>
        description (garden_frames (take (Suc k') ws) g)
          = textContent (userData_content (sphere_heap g b))) \<and>
      overlay_hidden (garden_frames (take (Suc r) ws) g) = False)"
  apply (rule conjI)
   apply (rule impI)
   apply (erule room_reentry)
  apply (rule impI)
  apply (erule garden_reentry)
  done

text \<open>
  A mirror, and a sphere, in front of the camera, which makes the run 5, 8, 9, 5 along
  its axis: in range, out of range twice, in range again.
\<close>

theorem reentry_fires_enter_again_witness:
  "(viewer_reachable (place ''mirror'' 4 (initScene True [])) \<and> (0::nat) < 2 \<and> (2::nat) < 3 \<and> (3::nat) < length [at_z 5, at_z 8, at_z 9, at_z 5] \<and>
    highlightedObject (frames (take (Suc (0::nat)) [at_z 5, at_z 8, at_z 9, at_z 5]) (place ''mirror'' 4 (initScene True []))) = Some 0 \<and>
    highlightedObject (frames (take (Suc 2) [at_z 5, at_z 8, at_z 9, at_z 5]) (place ''mirror'' 4 (initScene True []))) \<noteq> Some 0 \<and>
    highlightedObject (frames (take (Suc 3) [at_z 5, at_z 8, at_z 9, at_z 5]) (place ''mirror'' 4 (initScene True []))) = Some 0) \<and>
   ((\<exists>j' k'. 0 < j' \<and> j' \<le> 2 \<and> 2 < k' \<and> k' \<le> 3 \<and>
        highlightedObject (frames (take j' [at_z 5, at_z 8, at_z 9, at_z 5]) (place ''mirror'' 4 (initScene True []))) = Some 0 \<and>
        (\<exists>post. snd (animate ([at_z 5, at_z 8, at_z 9, at_z 5] ! j') (frames (take j' [at_z 5, at_z 8, at_z 9, at_z 5]) (place ''mirror'' 4 (initScene True []))))
            = RestoreMaterials 0 # OverlayHide # post) \<and>
        meshes (heap (frames (take (Suc j') [at_z 5, at_z 8, at_z 9, at_z 5]) (place ''mirror'' 4 (initScene True []))) 0)
          = map (\<lambda>m. m\<lparr>material := originalMaterial m\<rparr>) (meshes (heap (frames (take j' [at_z 5, at_z 8, at_z 9, at_z 5]) (place ''mirror'' 4 (initScene True []))) 0)) \<and>
        \<not> highlighted_look (heap (frames (take (Suc j') [at_z 5, at_z 8, at_z 9, at_z 5]) (place ''mirror'' 4 (initScene True []))) 0) \<and>
        highlightedObject (frames (take (Suc j') [at_z 5, at_z 8, at_z 9, at_z 5]) (place ''mirror'' 4 (initScene True []))) \<noteq> Some 0 \<and>
        overlay_hidden (frames (take (Suc j') [at_z 5, at_z 8, at_z 9, at_z 5]) (place ''mirror'' 4 (initScene True [])))
          = (highlightedObject (frames (take (Suc j') [at_z 5, at_z 8, at_z 9, at_z 5]) (place ''mirror'' 4 (initScene True []))) = None) \<and>
        highlightedObject (frames (take k' [at_z 5, at_z 8, at_z 9, at_z 5]) (place ''mirror'' 4 (initScene True []))) \<noteq> Some 0 \<and>
        \<not> highlighted_look (heap (frames (take k' [at_z 5, at_z 8, at_z 9, at_z 5]) (place ''mirror'' 4 (initScene True []))) 0) \<and>
        (\<exists>pre. snd (animate ([at_z 5, at_z 8, at_z 9, at_z 5] ! k') (frames (take k' [at_z 5, at_z 8, at_z 9, at_z 5]) (place ''mirror'' 4 (initScene True []))))
            = pre @ [HighlightMaterials 0,
                     DescriptionText (textContent (objectDescriptions (userData_type (heap (place ''mirror'' 4 (initScene True [])) 0)))),
                     OverlayShow, StoreHighlighted (Some 0)]) \<and>
        meshes (heap (frames (take (Suc k') [at_z 5, at_z 8, at_z 9, at_z 5]) (place ''mirror'' 4 (initScene True []))) 0)
          = map (\<lambda>m. m\<lparr>material := (case originalMaterial m of
                Single x \<Rightarrow> Single (x\<lparr>emissive := 0x666666, emissiveIntensity := 0.5\<rparr>)
              | Multi xs \<Rightarrow> Multi (map (\<lambda>x. x\<lparr>emissive := 0x666666, emissiveIntensity := 0.5\<rparr>) xs))\<rparr>)
              (meshes (heap (frames (take k' [at_z 5, at_z 8, at_z 9, at_z 5]) (place ''mirror'' 4 (initScene True []))) 0)) \<and>
        highlightedObject (frames (take (Suc k') [at_z 5, at_z 8, at_z 9, at_z 5]) (place ''mirror'' 4 (initScene True []))) = Some 0 \<and>
        overlay_hidden (frames (take (Suc k') [at_z 5, at_z 8, at_z 9, at_z 5]) (place ''mirror'' 4 (initScene True []))) = False \<and>
        description (frames (take (Suc k') [at_z 5, at_z 8, at_z 9, at_z 5]) (place ''mirror'' 4 (initScene True [])))
          = textContent (objectDescriptions (userData_type (heap (place ''mirror'' 4 (initScene True [])) 0)))) \<and>
      overlay_hidden (frames (take (Suc 3) [at_z 5, at_z 8, at_z 9, at_z 5]) (place ''mirror'' 4 (initScene True []))) = False) \<and>
   ((0::nat) < 2 \<and> (2::nat) < 3 \<and> (3::nat) < length [at_z 5, at_z 8, at_z 9, at_z 5] \<and>
    highlightedSphere (garden_frames (take (Suc (0::nat)) [at_z 5, at_z 8, at_z 9, at_z 5]) (plant [(0.4, 2.5)])) = Some 0 \<and>
    highlightedSphere (garden_frames (take (Suc 2) [at_z 5, at_z 8, at_z 9, at_z 5]) (plant [(0.4, 2.5)])) \<noteq> Some 0 \<and>
    highlightedSphere (garden_frames (take (Suc 3) [at_z 5, at_z 8, at_z 9, at_z 5]) (plant [(0.4, 2.5)])) = Some 0) \<and>
   ((\<exists>j' k'. 0 < j' \<and> j' \<le> 2 \<and> 2 < k' \<and> k' \<le> 3 \<and>
        highlightedSphere (garden_frames (take j' [at_z 5, at_z 8, at_z 9, at_z 5]) (plant [(0.4, 2.5)])) = Some 0 \<and>
        (\<exists>post. snd (garden_animate ([at_z 5, at_z 8, at_z 9, at_z 5] ! j') (garden_frames (take j' [at_z 5, at_z 8, at_z 9, at_z 5]) (plant [(0.4, 2.5)])))
            = RestoreMaterials 0 # OverlayHide # post) \<and>
        sphere_material (sphere_heap (garden_frames (take (Suc j') [at_z 5, at_z 8, at_z 9, at_z 5]) (plant [(0.4, 2.5)])) 0)
          = userData_originalMaterial (sphere_heap (garden_frames (take j' [at_z 5, at_z 8, at_z 9, at_z 5]) (plant [(0.4, 2.5)])) 0) \<and>
        highlightedSphere (garden_frames (take (Suc j') [at_z 5, at_z 8, at_z 9, at_z 5]) (plant [(0.4, 2.5)])) \<noteq> Some 0 \<and>
        overlay_hidden (garden_frames (take (Suc j') [at_z 5, at_z 8, at_z 9, at_z 5]) (plant [(0.4, 2.5)]))
          = (highlightedSphere (garden_frames (take (Suc j') [at_z 5, at_z 8, at_z 9, at_z 5]) (plant [(0.4, 2.5)])) = None) \<and>
        highlightedSphere (garden_frames (take k' [at_z 5, at_z 8, at_z 9, at_z 5]) (plant [(0.4, 2.5)])) \<noteq> Some 0 \<and>
        (\<exists>pre. snd (garden_animate ([at_z 5, at_z 8, at_z 9, at_z 5] ! k') (garden_frames (take k' [at_z 5, at_z 8, at_z 9, at_z 5]) (plant [(0.4, 2.5)])))
            = pre @ [HighlightMaterials 0,
                     DescriptionText (textContent (userData_content (sphere_heap (plant [(0.4, 2.5)]) 0))),
                     OverlayShow, StoreHighlighted (Some 0)]) \<and>
        sphere_material (sphere_heap (garden_frames (take (Suc k') [at_z 5, at_z 8, at_z 9, at_z 5]) (plant [(0.4, 2.5)])) 0)
          = (userData_originalMaterial (sphere_heap (garden_frames (take k' [at_z 5, at_z 8, at_z 9, at_z 5]) (plant [(0.4, 2.5)])) 0))
              \<lparr>emissive := 0x666666, emissiveIntensity := 0.5\<rparr> \<and>
        highlightedSphere (garden_frames (take (Suc k') [at_z 5, at_z 8, at_z 9, at_z 5]) (plant [(0.4, 2.5)])) = Some 0 \<and>
        overlay_hidden (garden_frames (take (Suc k') [at_z 5, at_z 8, at_z 9, at_z 5]) (plant [(0.4, 2.5)])) = False \<and>
        description (garden_frames (take (Suc k') [at_z 5, at_z 8, at_z 9, at_z 5]) (plant [(0.4, 2.5)]))
          = textContent (userData_content (sphere_heap (plant [(0.4, 2.5)]) 0))) \<and>
      overlay_hidden (garden_frames (take (Suc 3) [at_z 5, at_z 8, at_z 9, at_z 5]) (plant [(0.4, 2.5)])) = False)"
proof -
  have reach: "viewer_reachable (place ''mirror'' 4 (initScene True []))"
    unfolding place_def by (intro reach_loadObject reach_initScene)
  have a0: "highlightedObject (frames (take (Suc (0::nat)) [at_z 5, at_z 8, at_z 9, at_z 5]) (place ''mirror'' 4 (initScene True []))) = Some 0"
    using frames_selected[of 0 "[at_z 5, at_z 8, at_z 9, at_z 5]" "(place ''mirror'' 4 (initScene True []))"]
    by (simp add: updateCamera_def room_eval distance_eval)
  have a2: "highlightedObject (frames (take (Suc 2) [at_z 5, at_z 8, at_z 9, at_z 5]) (place ''mirror'' 4 (initScene True []))) \<noteq> Some 0"
    using frames_selected[of 2 "[at_z 5, at_z 8, at_z 9, at_z 5]" "(place ''mirror'' 4 (initScene True []))"]
    by (simp add: updateCamera_def room_eval distance_eval)
  have a3: "highlightedObject (frames (take (Suc 3) [at_z 5, at_z 8, at_z 9, at_z 5]) (place ''mirror'' 4 (initScene True []))) = Some 0"
    using frames_selected[of 3 "[at_z 5, at_z 8, at_z 9, at_z 5]" "(place ''mirror'' 4 (initScene True []))"]
    by (simp add: updateCamera_def room_eval distance_eval)
  have b0: "highlightedSphere (garden_frames (take (Suc (0::nat)) [at_z 5, at_z 8, at_z 9, at_z 5]) (plant [(0.4, 2.5)])) = Some 0"
    using garden_frames_selected[of 0 "[at_z 5, at_z 8, at_z 9, at_z 5]" "(plant [(0.4, 2.5)])"]
    by (simp add: updateCamera_def garden_eval distance_eval)
  have b2: "highlightedSphere (garden_frames (take (Suc 2) [at_z 5, at_z 8, at_z 9, at_z 5]) (plant [(0.4, 2.5)])) \<noteq> Some 0"
    using garden_frames_selected[of 2 "[at_z 5, at_z 8, at_z 9, at_z 5]" "(plant [(0.4, 2.5)])"]
    by (simp add: updateCamera_def garden_eval distance_eval)
  have b3: "highlightedSphere (garden_frames (take (Suc 3) [at_z 5, at_z 8, at_z 9, at_z 5]) (plant [(0.4, 2.5)])) = Some 0"
    using garden_frames_selected[of 3 "[at_z 5, at_z 8, at_z 9, at_z 5]" "(plant [(0.4, 2.5)])"]
    by (simp add: updateCamera_def garden_eval distance_eval)
  have rh: "viewer_reachable (place ''mirror'' 4 (initScene True [])) \<and> (0::nat) < 2 \<and> (2::nat) < 3 \<and> (3::nat) < length [at_z 5, at_z 8, at_z 9, at_z 5] \<and>
    highlightedObject (frames (take (Suc (0::nat)) [at_z 5, at_z 8, at_z 9, at_z 5]) (place ''mirror'' 4 (initScene True []))) = Some 0 \<and>
    highlightedObject (frames (take (Suc 2) [at_z 5, at_z 8, at_z 9, at_z 5]) (place ''mirror'' 4 (initScene True []))) \<noteq> Some 0 \<and>
    highlightedObject (frames (take (Suc 3) [at_z 5, at_z 8, at_z 9, at_z 5]) (place ''mirror'' 4 (initScene True []))) = Some 0"
    using reach a0 a2 a3 by simp
  have gh: "(0::nat) < 2 \<and> (2::nat) < 3 \<and> (3::nat) < length [at_z 5, at_z 8, at_z 9, at_z 5] \<and>
    highlightedSphere (garden_frames (take (Suc (0::nat)) [at_z 5, at_z 8, at_z 9, at_z 5]) (plant [(0.4, 2.5)])) = Some 0 \<and>
    highlightedSphere (garden_frames (take (Suc 2) [at_z 5, at_z 8, at_z 9, at_z 5]) (plant [(0.4, 2.5)])) \<noteq> Some 0 \<and>
    highlightedSphere (garden_frames (take (Suc 3) [at_z 5, at_z 8, at_z 9, at_z 5]) (plant [(0.4, 2.5)])) = Some 0"
    using b0 b2 b3 by simp
  note run = reentry_fires_enter_again
    [where s = "(place ''mirror'' 4 (initScene True []))" and vs = "[at_z 5, at_z 8, at_z 9, at_z 5]" and a = 0 and i = 0 and j = 2 and k = 3
       and g = "(plant [(0.4, 2.5)])" and ws = "[at_z 5, at_z 8, at_z 9, at_z 5]" and b = 0 and p = 0 and q = 2 and r = 3]
  have room: "(\<exists>j' k'. 0 < j' \<and> j' \<le> 2 \<and> 2 < k' \<and> k' \<le> 3 \<and>
        highlightedObject (frames (take j' [at_z 5, at_z 8, at_z 9, at_z 5]) (place ''mirror'' 4 (initScene True []))) = Some 0 \<and>
        (\<exists>post. snd (animate ([at_z 5, at_z 8, at_z 9, at_z 5] ! j') (frames (take j' [at_z 5, at_z 8, at_z 9, at_z 5]) (place ''mirror'' 4 (initScene True []))))
            = RestoreMaterials 0 # OverlayHide # post) \<and>
        meshes (heap (frames (take (Suc j') [at_z 5, at_z 8, at_z 9, at_z 5]) (place ''mirror'' 4 (initScene True []))) 0)
          = map (\<lambda>m. m\<lparr>material := originalMaterial m\<rparr>) (meshes (heap (frames (take j' [at_z 5, at_z 8, at_z 9, at_z 5]) (place ''mirror'' 4 (initScene True []))) 0)) \<and>
        \<not> highlighted_look (heap (frames (take (Suc j') [at_z 5, at_z 8, at_z 9, at_z 5]) (place ''mirror'' 4 (initScene True []))) 0) \<and>
        highlightedObject (frames (take (Suc j') [at_z 5, at_z 8, at_z 9, at_z 5]) (place ''mirror'' 4 (initScene True []))) \<noteq> Some 0 \<and>
        overlay_hidden (frames (take (Suc j') [at_z 5, at_z 8, at_z 9, at_z 5]) (place ''mirror'' 4 (initScene True [])))
          = (highlightedObject (frames (take (Suc j') [at_z 5, at_z 8, at_z 9, at_z 5]) (place ''mirror'' 4 (initScene True []))) = None) \<and>
        highlightedObject (frames (take k' [at_z 5, at_z 8, at_z 9, at_z 5]) (place ''mirror'' 4 (initScene True []))) \<noteq> Some 0 \<and>
        \<not> highlighted_look (heap (frames (take k' [at_z 5, at_z 8, at_z 9, at_z 5]) (place ''mirror'' 4 (initScene True []))) 0) \<and>
        (\<exists>pre. snd (animate ([at_z 5, at_z 8, at_z 9, at_z 5] ! k') (frames (take k' [at_z 5, at_z 8, at_z 9, at_z 5]) (place ''mirror'' 4 (initScene True []))))
            = pre @ [HighlightMaterials 0,
                     DescriptionText (textContent (objectDescriptions (userData_type (heap (place ''mirror'' 4 (initScene True [])) 0)))),
                     OverlayShow, StoreHighlighted (Some 0)]) \<and>
        meshes (heap (frames (take (Suc k') [at_z 5, at_z 8, at_z 9, at_z 5]) (place ''mirror'' 4 (initScene True []))) 0)
          = map (\<lambda>m. m\<lparr>material := (case originalMaterial m of
                Single x \<Rightarrow> Single (x\<lparr>emissive := 0x666666, emissiveIntensity := 0.5\<rparr>)
              | Multi xs \<Rightarrow> Multi (map (\<lambda>x. x\<lparr>emissive := 0x666666, emissiveIntensity := 0.5\<rparr>) xs))\<rparr>)
              (meshes (heap (frames (take k' [at_z 5, at_z 8, at_z 9, at_z 5]) (place ''mirror'' 4 (initScene True []))) 0)) \<and>
        highlightedObject (frames (take (Suc k') [at_z 5, at_z 8, at_z 9, at_z 5]) (place ''mirror'' 4 (initScene True []))) = Some 0 \<and>
        overlay_hidden (frames (take (Suc k') [at_z 5, at_z 8, at_z 9, at_z 5]) (place ''mirror'' 4 (initScene True []))) = False \<and>
        description (frames (take (Suc k') [at_z 5, at_z 8, at_z 9, at_z 5]) (place ''mirror'' 4 (initScene True [])))
          = textContent (objectDescriptions (userData_type (heap (place ''mirror'' 4 (initScene True [])) 0)))) \<and>
      overlay_hidden (frames (take (Suc 3) [at_z 5, at_z 8, at_z 9, at_z 5]) (place ''mirror'' 4 (initScene True []))) = False"
    using run[THEN conjunct1] rh by (rule mp)
  have garden: "(\<exists>j' k'. 0 < j' \<and> j' \<le> 2 \<and> 2 < k' \<and> k' \<le> 3 \<and>
        highlightedSphere (garden_frames (take j' [at_z 5, at_z 8, at_z 9, at_z 5]) (plant [(0.4, 2.5)])) = Some 0 \<and>
        (\<exists>post. snd (garden_animate ([at_z 5, at_z 8, at_z 9, at_z 5] ! j') (garden_frames (take j' [at_z 5, at_z 8, at_z 9, at_z 5]) (plant [(0.4, 2.5)])))
            = RestoreMaterials 0 # OverlayHide # post) \<and>
        sphere_material (sphere_heap (garden_frames (take (Suc j') [at_z 5, at_z 8, at_z 9, at_z 5]) (plant [(0.4, 2.5)])) 0)
          = userData_originalMaterial (sphere_heap (garden_frames (take j' [at_z 5, at_z 8, at_z 9, at_z 5]) (plant [(0.4, 2.5)])) 0) \<and>
        highlightedSphere (garden_frames (take (Suc j') [at_z 5, at_z 8, at_z 9, at_z 5]) (plant [(0.4, 2.5)])) \<noteq> Some 0 \<and>
        overlay_hidden (garden_frames (take (Suc j') [at_z 5, at_z 8, at_z 9, at_z 5]) (plant [(0.4, 2.5)]))
          = (highlightedSphere (garden_frames (take (Suc j') [at_z 5, at_z 8, at_z 9, at_z 5]) (plant [(0.4, 2.5)])) = None) \<and>
        highlightedSphere (garden_frames (take k' [at_z 5, at_z 8, at_z 9, at_z 5]) (plant [(0.4, 2.5)])) \<noteq> Some 0 \<and>
        (\<exists>pre. snd (garden_animate ([at_z 5, at_z 8, at_z 9, at_z 5] ! k') (garden_frames (take k' [at_z 5, at_z 8, at_z 9, at_z 5]) (plant [(0.4, 2.5)])))
            = pre @ [HighlightMaterials 0,
                     DescriptionText (textContent (userData_content (sphere_heap (plant [(0.4, 2.5)]) 0))),
                     OverlayShow, StoreHighlighted (Some 0)]) \<and>
        sphere_material (sphere_heap (garden_frames (take (Suc k') [at_z 5, at_z 8, at_z 9, at_z 5]) (plant [(0.4, 2.5)])) 0)
          = (userData_originalMaterial (sphere_heap (garden_frames (take k' [at_z 5, at_z 8, at_z 9, at_z 5]) (plant [(0.4, 2.5)])) 0))
              \<lparr>emissive := 0x666666, emissiveIntensity := 0.5\<rparr> \<and>
        highlightedSphere (garden_frames (take (Suc k') [at_z 5, at_z 8, at_z 9, at_z 5]) (plant [(0.4, 2.5)])) = Some 0 \<and>
        overlay_hidden (garden_frames (take (Suc k') [at_z 5, at_z 8, at_z 9, at_z 5]) (plant [(0.4, 2.5)])) = False \<and>
        description (garden_frames (take (Suc k') [at_z 5, at_z 8, at_z 9, at_z 5]) (plant [(0.4, 2.5)]))
          = textContent (userData_content (sphere_heap (plant [(0.4, 2.5)]) 0))) \<and>
      overlay_hidden (garden_frames (take (Suc 3) [at_z 5, at_z 8, at_z 9, at_z 5]) (plant [(0.4, 2.5)])) = False"
    using run[THEN conjunct2] gh by (rule mp)
  show ?thesis
    by (rule conjI[OF rh conjI[OF room conjI[OF gh garden]]])
qed

section \<open>Ties\<close>

lemma interactiveObjects_split:
  assumes "objects s = pre @ a # post" "userData_type (heap s a) \<in> set interactive_types"
  shows "interactiveObjects s =
           filter (\<lambda>obj. userData_type (heap s obj) \<in> set interactive_types) pre @
           a # filter (\<lambda>obj. userData_type (heap s obj) \<in> set interactive_types) post"
  using assms by (simp add: interactiveObjects_def)

text \<open>
  Claim C6. Let \<open>a\<close> be a registered interactive object strictly within
  \<open>INTERACTION_DISTANCE\<close>, every interactive object registered before it strictly
  farther from the camera, and every interactive object registered after it at least as
  far. Then the proximity check highlights \<open>a\<close>: of several objects at the same least
  distance, the first registered wins. The same holds for the spheres of the garden. The
  check is a function of the state, so running it again on the same registry and
  viewpoint selects the same object.
\<close>

theorem first_registered_wins_ties:
  "(objects s = pre @ a # post \<and>
    userData_type (heap s a) \<in> set interactive_types \<and>
    objectDistance s a < INTERACTION_DISTANCE \<and>
    (\<forall>b\<in>set pre. userData_type (heap s b) \<in> set interactive_types \<longrightarrow>
        objectDistance s a < objectDistance s b) \<and>
    (\<forall>b\<in>set post. userData_type (heap s b) \<in> set interactive_types \<longrightarrow>
        objectDistance s a \<le> objectDistance s b) \<longrightarrow>
      closestObject s = Some a \<and> highlightedObject (fst (checkObjectProximity s)) = Some a) \<and>
   (spheres g = gpre @ c # gpost \<and>
    sphereDistance g c < INTERACTION_DISTANCE \<and>
    (\<forall>b\<in>set gpre. sphereDistance g c < sphereDistance g b) \<and>
    (\<forall>b\<in>set gpost. sphereDistance g c \<le> sphereDistance g b) \<longrightarrow>
      closestSphere g = Some c \<and> highlightedSphere (fst (checkProximity g)) = Some c)"
proof (intro conjI impI)
  assume hyp: "objects s = pre @ a # post \<and>
    userData_type (heap s a) \<in> set interactive_types \<and>
    objectDistance s a < INTERACTION_DISTANCE \<and>
    (\<forall>b\<in>set pre. userData_type (heap s b) \<in> set interactive_types \<longrightarrow>
        objectDistance s a < objectDistance s b) \<and>
    (\<forall>b\<in>set post. userData_type (heap s b) \<in> set interactive_types \<longrightarrow>
        objectDistance s a \<le> objectDistance s b)"
  let ?P = "\<lambda>obj. userData_type (heap s obj) \<in> set interactive_types"
  from hyp have split: "interactiveObjects s = filter ?P pre @ a # filter ?P post"
    by (simp add: interactiveObjects_split)
  from hyp have near: "objectDistance s a < INTERACTION_DISTANCE" by simp
  from hyp have before: "\<forall>y\<in>set (filter ?P pre). objectDistance s a < objectDistance s y"
    by simp
  from hyp have after: "\<forall>y\<in>set (filter ?P post). objectDistance s a \<le> objectDistance s y"
    by simp
  show closest: "closestObject s = Some a"
    using closest_forEach_first_min[OF near before after]
    by (simp add: closestObject_def split)
  then show "highlightedObject (fst (checkObjectProximity s)) = Some a"
    by (simp add: checkObjectProximity_highlighted)
next
  assume hyp: "spheres g = gpre @ c # gpost \<and>
    sphereDistance g c < INTERACTION_DISTANCE \<and>
    (\<forall>b\<in>set gpre. sphereDistance g c < sphereDistance g b) \<and>
    (\<forall>b\<in>set gpost. sphereDistance g c \<le> sphereDistance g b)"
  then have near: "sphereDistance g c < INTERACTION_DISTANCE"
    and before: "\<forall>y\<in>set gpre. sphereDistance g c < sphereDistance g y"
    and after: "\<forall>y\<in>set gpost. sphereDistance g c \<le> sphereDistance g y"
    by simp_all
  show closest: "closestSphere g = Some c"
    using closest_forEach_first_min[OF near before after] hyp
    by (simp add: closestSphere_def)
  then show "highlightedSphere (fst (checkProximity g)) = Some c"
    by (simp add: checkProximity_highlighted)
qed

text \<open>
  A mirror and a telephone, registered in this order, both at distance 1 on opposite
  sides of the camera, and two spheres both at distance 1: the mirror and the first
  sphere are highlighted.
\<close>

theorem first_registered_wins_ties_witness:
  "objects (place ''telephone'' 6 (place ''mirror'' 4 (initScene True []))) = [] @ 0 # [1] \<and>
   userData_type (heap (place ''telephone'' 6 (place ''mirror'' 4 (initScene True []))) 1)
     \<in> set interactive_types \<and>
   objectDistance (place ''telephone'' 6 (place ''mirror'' 4 (initScene True []))) 0
     = objectDistance (place ''telephone'' 6 (place ''mirror'' 4 (initScene True []))) 1 \<and>
   objectDistance (place ''telephone'' 6 (place ''mirror'' 4 (initScene True []))) 0
     < INTERACTION_DISTANCE \<and>
   highlightedObject (fst (checkObjectProximity
     (place ''telephone'' 6 (place ''mirror'' 4 (initScene True []))))) = Some 0 \<and>
   spheres (plant [(0.4, 2.5), (-0.4, 2.5)]) = [] @ 0 # [1] \<and>
   sphereDistance (plant [(0.4, 2.5), (-0.4, 2.5)]) 0 = sphereDistance (plant [(0.4, 2.5), (-0.4, 2.5)]) 1 \<and>
   sphereDistance (plant [(0.4, 2.5), (-0.4, 2.5)]) 0 < INTERACTION_DISTANCE \<and>
   highlightedSphere (fst (checkProximity (plant [(0.4, 2.5), (-0.4, 2.5)]))) = Some 0"
proof -
  have a1: "objects (place ''telephone'' 6 (place ''mirror'' 4 (initScene True []))) = [] @ 0 # [1]"
    by (simp add: room_eval)
  have a2: "userData_type (heap (place ''telephone'' 6 (place ''mirror'' 4 (initScene True []))) 0)
     \<in> set interactive_types"
    and a3: "userData_type (heap (place ''telephone'' 6 (place ''mirror'' 4 (initScene True []))) 1)
     \<in> set interactive_types"
    by (simp_all add: room_eval)
  have a4: "objectDistance (place ''telephone'' 6 (place ''mirror'' 4 (initScene True []))) 0
     = objectDistance (place ''telephone'' 6 (place ''mirror'' 4 (initScene True []))) 1"
    by (simp add: room_eval distanceTo_def distanceToSquared_def)
  have a5: "objectDistance (place ''telephone'' 6 (place ''mirror'' 4 (initScene True []))) 0
     < INTERACTION_DISTANCE"
    by (simp add: room_eval distance_eval)
  have b1: "spheres (plant [(0.4, 2.5), (-0.4, 2.5)]) = [] @ 0 # [1]"
    by (simp add: garden_eval)
  have b4: "sphereDistance (plant [(0.4, 2.5), (-0.4, 2.5)]) 0
     = sphereDistance (plant [(0.4, 2.5), (-0.4, 2.5)]) 1"
    by (simp add: garden_eval distanceTo_def distanceToSquared_def)
  have b5: "sphereDistance (plant [(0.4, 2.5), (-0.4, 2.5)]) 0 < INTERACTION_DISTANCE"
    by (simp add: garden_eval distance_eval)
  from a1 a2 a3 a4 a5 b1 b4 b5
    first_registered_wins_ties
      [of "place ''telephone'' 6 (place ''mirror'' 4 (initScene True []))" "[]" 0 "[1]"
          "plant [(0.4, 2.5), (-0.4, 2.5)]" "[]" 0 "[1]"]
  show ?thesis by simp
qed

section \<open>Objects outside the allow-list\<close>

text \<open>
  Claim C7. An object whose type tag is not in the allow-list is not among the objects
  the proximity check scans, so it is neither selected nor stored as highlighted by a
  check, whatever the camera position and however near it is. A successful load puts
  every model, of any type, into the scene graph and the registry.
\<close>

theorem non_interactive_never_highlighted:
  "(userData_type (heap s r) \<notin> set interactive_types \<longrightarrow>
      r \<notin> set (interactiveObjects s) \<and>
      closestObject s \<noteq> Some r \<and>
      highlightedObject (fst (checkObjectProximity s)) \<noteq> Some r \<and>
      (\<forall>v. highlightedObject (fst (animate v s)) \<noteq> Some r)) \<and>
   next_ref s \<in> scene (fst (loadObject folderName pos rotation_y objectType (Loaded gl) s)) \<and>
   objects (fst (loadObject folderName pos rotation_y objectType (Loaded gl) s)) = objects s @ [next_ref s]"
proof (intro conjI impI)
  assume out: "userData_type (heap s r) \<notin> set interactive_types"
  then show listed: "r \<notin> set (interactiveObjects s)"
    by (simp add: interactiveObjects_def)
  have never: "closestObject t \<noteq> Some r" if "userData_type (heap t r) \<notin> set interactive_types" for t
  proof
    assume "closestObject t = Some r"
    then have "fst (closest_forEach (objectDistance t) (interactiveObjects t) (None, Infinity)) = Some r"
      by (simp add: closestObject_def)
    then have "r \<in> set (interactiveObjects t)"
      using closest_forEach_Some by blast
    with that show False by (simp add: interactiveObjects_def)
  qed
  from never[OF out] show "closestObject s \<noteq> Some r" .
  then show "highlightedObject (fst (checkObjectProximity s)) \<noteq> Some r"
    by (simp add: checkObjectProximity_highlighted)
  show "\<forall>v. highlightedObject (fst (animate v s)) \<noteq> Some r"
  proof
    fix v
    from out have "userData_type (heap (updateCamera v s) r) \<notin> set interactive_types"
      by (simp add: updateCamera_frame)
    from never[OF this] show "highlightedObject (fst (animate v s)) \<noteq> Some r"
      by (simp add: animate_def checkObjectProximity_highlighted)
  qed
next
  show "next_ref s \<in> scene (fst (loadObject folderName pos rotation_y objectType (Loaded gl) s))"
    by (simp add: loadObject_def Let_def)
  show "objects (fst (loadObject folderName pos rotation_y objectType (Loaded gl) s)) = objects s @ [next_ref s]"
    by (simp add: loadObject_def Let_def)
qed

text \<open>
  A couch at distance 0.1 and a mirror at distance 1: the couch is the nearest object
  and is in range, and the mirror is highlighted.
\<close>

theorem non_interactive_never_highlighted_witness:
  "userData_type (heap (place ''mirror'' 4 (place ''couch'' 4.9 (initScene True []))) 0)
     \<notin> set interactive_types \<and>
   objectDistance (place ''mirror'' 4 (place ''couch'' 4.9 (initScene True []))) 0 = 0.1 \<and>
   objectDistance (place ''mirror'' 4 (place ''couch'' 4.9 (initScene True []))) 1 = 1 \<and>
   0 \<in> scene (place ''mirror'' 4 (place ''couch'' 4.9 (initScene True []))) \<and>
   highlightedObject (fst (checkObjectProximity
     (place ''mirror'' 4 (place ''couch'' 4.9 (initScene True []))))) \<noteq> Some 0 \<and>
   highlightedObject (fst (animate (at_z 4.8)
     (place ''mirror'' 4 (place ''couch'' 4.9 (initScene True []))))) \<noteq> Some 0"
proof -
  have a1: "userData_type (heap (place ''mirror'' 4 (place ''couch'' 4.9 (initScene True []))) 0)
     \<notin> set interactive_types"
    by (simp add: room_eval)
  have a2: "objectDistance (place ''mirror'' 4 (place ''couch'' 4.9 (initScene True []))) 0 = 0.1"
    by (simp add: room_eval distanceTo_axis)
  have a3: "objectDistance (place ''mirror'' 4 (place ''couch'' 4.9 (initScene True []))) 1 = 1"
    by (simp add: room_eval distanceTo_axis)
  have a4: "0 \<in> scene (place ''mirror'' 4 (place ''couch'' 4.9 (initScene True [])))"
    by (simp add: room_eval)
  from a1 a2 a3 a4
    non_interactive_never_highlighted
      [of "place ''mirror'' 4 (place ''couch'' 4.9 (initScene True []))" 0]
  show ?thesis by simp
qed

section \<open>A highlighted object without a description\<close>

text \<open>
  Claim C5. When the newly selected object has a type tag with no entry in
  \<^verbatim>\<open>objectDescriptions\<close>, the lookup yields \<^verbatim>\<open>undefined\<close>, the description text becomes
  empty, the overlay is shown and the object is stored as highlighted. The check is a
  total function with no failing branch on this path: the lookup result is assigned, not
  dereferenced.
\<close>

theorem missing_description_shows_empty_overlay:
  "closestObject s = Some c \<and> highlightedObject s \<noteq> Some c \<and>
   objectDescriptions (userData_type (heap s c)) = None \<longrightarrow>
     (\<exists>pre. snd (checkObjectProximity s) =
        pre @ [HighlightMaterials c, DescriptionText [], OverlayShow, StoreHighlighted (Some c)]) \<and>
     overlay_hidden (fst (checkObjectProximity s)) = False \<and>
     description (fst (checkObjectProximity s)) = [] \<and>
     highlightedObject (fst (checkObjectProximity s)) = Some c"
proof
  assume hyp: "closestObject s = Some c \<and> highlightedObject s \<noteq> Some c \<and>
   objectDescriptions (userData_type (heap s c)) = None"
  then have sel: "closestObject s = Some c" and new: "highlightedObject s \<noteq> Some c"
    and none: "objectDescriptions (userData_type (heap s c)) = None"
    by simp_all
  from checkObjectProximity_enter[OF sel new] none
  show "(\<exists>pre. snd (checkObjectProximity s) =
        pre @ [HighlightMaterials c, DescriptionText [], OverlayShow, StoreHighlighted (Some c)]) \<and>
     overlay_hidden (fst (checkObjectProximity s)) = False \<and>
     description (fst (checkObjectProximity s)) = [] \<and>
     highlightedObject (fst (checkObjectProximity s)) = Some c"
    by simp
qed

text \<open>
  The coffee table is in the allow-list and has no description: with the overlay hidden
  and holding some text before, a check one unit away from it shows an empty overlay.
\<close>

theorem missing_description_shows_empty_overlay_witness:
  "''coffee_table'' \<in> set interactive_types \<and>
   closestObject (place ''coffee_table'' 4 (initScene True ''before'')) = Some 0 \<and>
   highlightedObject (place ''coffee_table'' 4 (initScene True ''before'')) \<noteq> Some 0 \<and>
   objectDescriptions (userData_type (heap (place ''coffee_table'' 4 (initScene True ''before'')) 0)) = None \<and>
   snd (checkObjectProximity (place ''coffee_table'' 4 (initScene True ''before''))) =
     [HighlightMaterials 0, DescriptionText [], OverlayShow, StoreHighlighted (Some 0)] \<and>
   overlay_hidden (fst (checkObjectProximity (place ''coffee_table'' 4 (initScene True ''before'')))) = False \<and>
   description (fst (checkObjectProximity (place ''coffee_table'' 4 (initScene True ''before'')))) = [] \<and>
   highlightedObject (fst (checkObjectProximity (place ''coffee_table'' 4 (initScene True ''before'')))) = Some 0"
proof -
  have a0: "''coffee_table'' \<in> set interactive_types"
    by (simp add: interactive_types_def)
  have a1: "closestObject (place ''coffee_table'' 4 (initScene True ''before'')) = Some 0"
    by (simp add: room_eval distance_eval)
  have a2: "highlightedObject (place ''coffee_table'' 4 (initScene True ''before'')) \<noteq> Some 0"
    by (simp add: room_eval)
  have a3: "objectDescriptions (userData_type (heap (place ''coffee_table'' 4 (initScene True ''before'')) 0)) = None"
    by (simp add: room_eval objectDescriptions_def)
  have a4: "snd (checkObjectProximity (place ''coffee_table'' 4 (initScene True ''before''))) =
     [HighlightMaterials 0, DescriptionText [], OverlayShow, StoreHighlighted (Some 0)]"
    using a1 a3
    by (simp add: checkObjectProximity_def removeHighlight_def addHighlight_def Let_def)
       (simp add: room_eval)
  from a0 a1 a2 a3 a4
    missing_description_shows_empty_overlay [of "place ''coffee_table'' 4 (initScene True ''before'')" 0]
  show ?thesis by simp
qed

section \<open>Clearing the scene\<close>

lemma fold_remove: "fold (\<lambda>obj sc. sc - {obj}) xs sc = sc - set xs"
  by (induction xs arbitrary: sc) auto

lemma closestObject_clearScene: "closestObject (clearScene s) = None"
  by (simp add: closestObject_def interactiveObjects_def clearScene_def)

text \<open>
  Claim C4, as the code has it. \<^verbatim>\<open>clearScene\<close> empties the registry and removes every
  registered object from the scene graph. It executes no leave statement: the heap (and
  so every material), the overlay and its text are untouched. It does not reset the
  highlight either: \<^verbatim>\<open>highlightedObject\<close> keeps its value. Only the next proximity check,
  which finds the registry empty, restores the materials of the stored object, hides
  the overlay and stores none: after it the overlay is hidden, nothing is stored and, in
  every state the page can reach, each mesh of that object carries its saved material.
\<close>

theorem clearScene_keeps_highlight:
  "objects (clearScene s) = [] \<and>
   scene (clearScene s) = scene s - set (objects s) \<and>
   (\<forall>r\<in>set (objects s). r \<notin> scene (clearScene s)) \<and>
   heap (clearScene s) = heap s \<and>
   overlay_hidden (clearScene s) = overlay_hidden s \<and>
   description (clearScene s) = description s \<and>
   highlightedObject (clearScene s) = highlightedObject s \<and>
   (\<forall>a. highlightedObject s = Some a \<longrightarrow>
      snd (checkObjectProximity (clearScene s)) = [RestoreMaterials a, OverlayHide, StoreHighlighted None] \<and>
      highlightedObject (fst (checkObjectProximity (clearScene s))) = None \<and>
      overlay_hidden (fst (checkObjectProximity (clearScene s))) = True \<and>
      (viewer_reachable s \<longrightarrow>
         meshes (heap (fst (checkObjectProximity (clearScene s))) a)
           = map (\<lambda>m. m\<lparr>material := originalMaterial m\<rparr>) (meshes (heap s a))))"
proof -
  have next_check: "snd (checkObjectProximity (clearScene s)) = [RestoreMaterials a, OverlayHide, StoreHighlighted None] \<and>
      highlightedObject (fst (checkObjectProximity (clearScene s))) = None \<and>
      overlay_hidden (fst (checkObjectProximity (clearScene s))) = True \<and>
      (viewer_reachable s \<longrightarrow>
         meshes (heap (fst (checkObjectProximity (clearScene s))) a)
           = map (\<lambda>m. m\<lparr>material := originalMaterial m\<rparr>) (meshes (heap s a)))"
    if "highlightedObject s = Some a" for a
  proof -
    have stored: "highlightedObject (clearScene s) = Some a"
      using that by (simp add: clearScene_def)
    have same: "heap (clearScene s) = heap s"
      by (simp add: clearScene_def)
    have cell: "heap (fst (checkObjectProximity (clearScene s))) a = restoreMaterials (heap s a)"
      using stored
      by (simp add: checkObjectProximity_def closestObject_clearScene Let_def case_prod_beta
            removeHighlight_def addHighlight_def same)
    have restored: "meshes (heap (fst (checkObjectProximity (clearScene s))) a)
           = map (\<lambda>m. m\<lparr>material := originalMaterial m\<rparr>) (meshes (heap s a))"
      if "viewer_reachable s"
    proof -
      from that have "saved_ok (heap s a)"
        using viewer_reachable_inv by (simp add: viewer_inv_def)
      then show ?thesis by (simp add: cell restoreMaterials_saved)
    qed
    from stored restored show ?thesis
      by (simp add: checkObjectProximity_def closestObject_clearScene Let_def case_prod_beta
            removeHighlight_def addHighlight_def)
  qed
  have "scene (clearScene s) = scene s - set (objects s)"
    by (simp add: clearScene_def fold_remove)
  with next_check show ?thesis
    by (auto simp: clearScene_def)
qed

text \<open>
  The mirror is highlighted when \<^verbatim>\<open>clearScene\<close> runs: afterwards the registry is empty, the
  mirror is out of the scene graph and still stored as highlighted, still looking
  highlighted, with the overlay still shown. The check that follows hides the overlay
  and gives the mirror its normal look back.
\<close>

theorem clearScene_keeps_highlight_witness:
  "highlightedObject (fst (checkObjectProximity (place ''mirror'' 4 (initScene True [])))) = Some 0 \<and>
   0 \<in> set (objects (fst (checkObjectProximity (place ''mirror'' 4 (initScene True []))))) \<and>
   objects (clearScene (fst (checkObjectProximity (place ''mirror'' 4 (initScene True []))))) = [] \<and>
   0 \<notin> scene (clearScene (fst (checkObjectProximity (place ''mirror'' 4 (initScene True []))))) \<and>
   highlightedObject (clearScene (fst (checkObjectProximity (place ''mirror'' 4 (initScene True [])))))
     = Some 0 \<and>
   overlay_hidden (clearScene (fst (checkObjectProximity (place ''mirror'' 4 (initScene True []))))) = False \<and>
   snd (checkObjectProximity (clearScene (fst (checkObjectProximity (place ''mirror'' 4 (initScene True []))))))
     = [RestoreMaterials 0, OverlayHide, StoreHighlighted None] \<and>
   viewer_reachable (fst (checkObjectProximity (place ''mirror'' 4 (initScene True [])))) \<and>
   highlighted_look (heap (clearScene (fst (checkObjectProximity (place ''mirror'' 4 (initScene True []))))) 0) \<and>
   overlay_hidden (fst (checkObjectProximity
     (clearScene (fst (checkObjectProximity (place ''mirror'' 4 (initScene True []))))))) = True \<and>
   \<not> highlighted_look (heap (fst (checkObjectProximity
     (clearScene (fst (checkObjectProximity (place ''mirror'' 4 (initScene True []))))))) 0)"
proof -
  have a6: "viewer_reachable (fst (checkObjectProximity (place ''mirror'' 4 (initScene True []))))"
    unfolding place_def by (intro reach_checkObjectProximity reach_loadObject reach_initScene)
  have a7: "highlighted_look (heap (fst (checkObjectProximity (place ''mirror'' 4 (initScene True [])))) 0)"
    by (simp add: checkObjectProximity_def removeHighlight_def addHighlight_def
          highlightMaterials_def highlighted_look_def highlightMat_def room_eval distance_eval)
  have a1: "highlightedObject (fst (checkObjectProximity (place ''mirror'' 4 (initScene True [])))) = Some 0"
    by (simp add: checkObjectProximity_highlighted room_eval distance_eval)
  have a2: "0 \<in> set (objects (fst (checkObjectProximity (place ''mirror'' 4 (initScene True [])))))"
    by (simp add: checkObjectProximity_frame room_eval)
  have a3: "closestObject (place ''mirror'' 4 (initScene True [])) = Some 0"
    by (simp add: room_eval distance_eval)
  have a4: "highlightedObject (place ''mirror'' 4 (initScene True [])) \<noteq> Some 0"
    by (simp add: room_eval)
  have a5: "overlay_hidden (fst (checkObjectProximity (place ''mirror'' 4 (initScene True [])))) = False"
    using checkObjectProximity_enter[OF a3 a4] by simp
  from a1 a2 a5 a6 a7
    clearScene_keeps_highlight [of "fst (checkObjectProximity (place ''mirror'' 4 (initScene True [])))"]
  show ?thesis by (simp add: highlighted_look_def)
qed

text \<open>
  Against claim C4 as stated: the mirror is highlighted, \<^verbatim>\<open>clearScene\<close> runs, and the
  stored highlight is not none.
\<close>

theorem clearScene_resets_highlight_counterexample:
  "highlightedObject (fst (checkObjectProximity (place ''mirror'' 4 (initScene True [])))) = Some 0 \<and>
   highlightedObject (clearScene (fst (checkObjectProximity (place ''mirror'' 4 (initScene True [])))))
     \<noteq> None"
  by (simp add: clearScene_def checkObjectProximity_highlighted room_eval distance_eval)

end
